theory Spec2Isabelle
  imports Complex_Main
begin

section \<open>Python values and failures\<close>

text \<open>
  The fuel module of TinyPedal (\<^verbatim>\<open>module/module_fuel.py\<close>) and the numeric routines
  it calls (\<^verbatim>\<open>calculation.py\<close>) are embedded here. Python numbers (ints and floats
  alike) are modelled as reals and the arithmetic is exact, except in the functions
  named \<open>_double\<close>, where every operation is rounded as on IEEE doubles. NaN and
  infinities are outside the model. Every exception the modelled code can raise is
  a value of \<open>py_error\<close>, returned as \<open>Inl\<close>.
\<close>

datatype py_error =
  IndexError | TypeError | ValueError | ZeroDivisionError | FileNotFoundError
  | PermissionError | CsvError

text \<open>Subscription \<^verbatim>\<open>xs[i]\<close>: a negative index counts from the end, anything else
  outside the list raises \<^verbatim>\<open>IndexError\<close>.\<close>

definition py_get :: "'a list \<Rightarrow> int \<Rightarrow> py_error + 'a" where
  "py_get xs i =
     (if 0 \<le> i \<and> i < int (length xs) then Inr (xs ! nat i)
      else if i < 0 \<and> - int (length xs) \<le> i then Inr (xs ! nat (int (length xs) + i))
      else Inl IndexError)"

text \<open>True division \<^verbatim>\<open>a / b\<close>.\<close>

definition py_div :: "real \<Rightarrow> real \<Rightarrow> py_error + real" where
  "py_div a b = (if b = 0 then Inl ZeroDivisionError else Inr (a / b))"

text \<open>\<^verbatim>\<open>round(x)\<close> rounds half to even; \<^verbatim>\<open>round(x, 6)\<close> keeps six decimals.\<close>

definition py_round :: "real \<Rightarrow> int" where
  "py_round y =
     (let f = \<lfloor>y\<rfloor>; d = y - of_int f
      in if d < 1 / 2 then f else if 1 / 2 < d then f + 1
         else if even f then f else f + 1)"

definition round6 :: "real \<Rightarrow> real" where
  "round6 x = of_int (py_round (x * 1000000)) / 1000000"

section \<open>calculation.py\<close>

subsection \<open>Interpolation\<close>

text \<open>
  \<^verbatim>\<open>
  def linear_interp(x, x1, y1, x2, y2):
      x_diff = x2 - x1
      if x_diff:
          return y1 + (x - x1) * (y2 - y1) / x_diff
      return y1
  \<close>
\<close>

definition linear_interp :: "real \<Rightarrow> real \<Rightarrow> real \<Rightarrow> real \<Rightarrow> real \<Rightarrow> py_error + real" where
  "linear_interp x x1 y1 x2 y2 =
     (let x_diff = x2 - x1
      in if x_diff \<noteq> 0
         then (case py_div ((x - x1) * (y2 - y1)) x_diff of
                 Inl e \<Rightarrow> Inl e
               | Inr q \<Rightarrow> Inr (y1 + q))
         else Inr y1)"

subsection \<open>Fuel projection formulas\<close>

definition total_fuel_needed :: "real \<Rightarrow> real \<Rightarrow> real \<Rightarrow> real" where
  "total_fuel_needed laps_remain consumption fuel_in_tank =
     laps_remain * consumption - fuel_in_tank"

text \<open>\<^verbatim>\<open>a % 1\<close> on floats: the fractional part, in \<open>[0, 1)\<close>.\<close>

definition py_mod1 :: "real \<Rightarrow> real" where
  "py_mod1 a = a - of_int \<lfloor>a\<rfloor>"

text \<open>
  \<^verbatim>\<open>
  def end_stint_fuel(fuel_in_tank, consumption_into_lap, consumption):
      if consumption:
          fuel_at_lap_start = fuel_in_tank + consumption_into_lap
          return fuel_at_lap_start / consumption % 1 * consumption
      return 0
  \<close>
\<close>

definition end_stint_fuel :: "real \<Rightarrow> real \<Rightarrow> real \<Rightarrow> py_error + real" where
  "end_stint_fuel fuel_in_tank consumption_into_lap consumption =
     (if consumption \<noteq> 0
      then (let fuel_at_lap_start = fuel_in_tank + consumption_into_lap
            in case py_div fuel_at_lap_start consumption of
                 Inl e \<Rightarrow> Inl e
               | Inr q \<Rightarrow> Inr (py_mod1 q * consumption))
      else Inr 0)"

definition end_lap_empty_capacity :: "real \<Rightarrow> real \<Rightarrow> real \<Rightarrow> real" where
  "end_lap_empty_capacity capacity_total fuel_in_tank consumption =
     capacity_total - fuel_in_tank + consumption"

text \<open>
  \<^verbatim>\<open>
  def end_stint_pit_counts(fuel_needed, capacity_total):
      if capacity_total:
          return fuel_needed / capacity_total
      return 0
  \<close>
\<close>

definition end_stint_pit_counts :: "real \<Rightarrow> real \<Rightarrow> py_error + real" where
  "end_stint_pit_counts fuel_needed capacity_total =
     (if capacity_total \<noteq> 0 then py_div fuel_needed capacity_total else Inr 0)"

text \<open>
  \<^verbatim>\<open>
  def end_lap_pit_counts(fuel_needed, capacity_empty, capacity_total):
      fuel_addable = min(fuel_needed, capacity_empty)
      pit_counts_before = fuel_addable / capacity_empty if capacity_empty else 1
      pit_counts_after = (fuel_needed - fuel_addable) / capacity_total
      return pit_counts_before + pit_counts_after
  \<close>
\<close>

definition end_lap_pit_counts :: "real \<Rightarrow> real \<Rightarrow> real \<Rightarrow> py_error + real" where
  "end_lap_pit_counts fuel_needed capacity_empty capacity_total =
     (let fuel_addable = min fuel_needed capacity_empty
      in case (if capacity_empty \<noteq> 0 then py_div fuel_addable capacity_empty else Inr 1) of
           Inl e \<Rightarrow> Inl e
         | Inr pit_counts_before \<Rightarrow>
             (case py_div (fuel_needed - fuel_addable) capacity_total of
                Inl e \<Rightarrow> Inl e
              | Inr pit_counts_after \<Rightarrow> Inr (pit_counts_before + pit_counts_after)))"

text \<open>
  The call site in \<^verbatim>\<open>Realtime.__update_data\<close> (module_fuel.py, lines 210 to 226):
  \<^verbatim>\<open>
  amount_left = calc.end_stint_fuel(amount_curr, used_curr, used_est)
  ...
  est_empty = calc.end_lap_empty_capacity(
      capacity, amount_curr + used_curr, used_last + delta_fuel)
  est_pits_late = calc.end_stint_pit_counts(amount_need, capacity - amount_left)
  est_pits_early = calc.end_lap_pit_counts(
      amount_need, est_empty, capacity - amount_left)
  \<close>
  The result is the tuple \<open>(amount_left, est_empty, est_pits_late, est_pits_early)\<close>.
\<close>

definition pit_projection ::
  "real \<Rightarrow> real \<Rightarrow> real \<Rightarrow> real \<Rightarrow> real \<Rightarrow> real \<Rightarrow> real \<Rightarrow> py_error + (real \<times> real \<times> real \<times> real)" where
  "pit_projection capacity amount_curr used_curr used_est used_last delta_fuel amount_need =
     (case end_stint_fuel amount_curr used_curr used_est of
        Inl e \<Rightarrow> Inl e
      | Inr amount_left \<Rightarrow>
          (let est_empty = end_lap_empty_capacity capacity (amount_curr + used_curr) (used_last + delta_fuel)
           in case end_stint_pit_counts amount_need (capacity - amount_left) of
                Inl e \<Rightarrow> Inl e
              | Inr est_pits_late \<Rightarrow>
                  (case end_lap_pit_counts amount_need est_empty (capacity - amount_left) of
                     Inl e \<Rightarrow> Inl e
                   | Inr est_pits_early \<Rightarrow>
                       Inr (amount_left, est_empty, est_pits_late, est_pits_early))))"

subsection \<open>Search and delta telemetry\<close>

text \<open>
  The search routines take a list of numbers or a list of rows (tuples of numbers)
  and an optional column. \<open>elem\<close> is what such a list holds.
  \<^verbatim>\<open>
  def search_column_key(key, column=None):
      if column is None:
          return key
      return key[column]
  \<close>
  Subscripting a number raises \<^verbatim>\<open>TypeError\<close>.
\<close>

datatype elem = Num real | Row "real list"

fun search_column_key :: "elem \<Rightarrow> int option \<Rightarrow> py_error + elem" where
  "search_column_key key None = Inr key"
| "search_column_key (Row r) (Some column) =
     (case py_get r column of Inl e \<Rightarrow> Inl e | Inr v \<Rightarrow> Inr (Num v))"
| "search_column_key (Num v) (Some column) = Inl TypeError"

text \<open>\<^verbatim>\<open>target == key\<close> and \<^verbatim>\<open>target > key\<close> for a number \<open>target\<close>: a number
  is never equal to a tuple, and ordering a number against a tuple raises
  \<^verbatim>\<open>TypeError\<close>.\<close>

fun py_eq :: "real \<Rightarrow> elem \<Rightarrow> bool" where
  "py_eq t (Num v) = (t = v)"
| "py_eq t (Row r) = False"

fun py_gt :: "real \<Rightarrow> elem \<Rightarrow> py_error + bool" where
  "py_gt t (Num v) = Inr (v < t)"
| "py_gt t (Row r) = Inl TypeError"

text \<open>
  \<^verbatim>\<open>
  def binary_search_hi(data, target, start, end, column=None):
      while start < end:
          center = (start + end) // 2
          if target == search_column_key(data[center], column):
              return center
          if target > search_column_key(data[center], column):
              start = center + 1
          else:
              end = center
      return end
  \<close>
  The loop is the recursion; \<open>en - start\<close> decreases in every round.
\<close>

function binary_search_hi :: "elem list \<Rightarrow> real \<Rightarrow> int \<Rightarrow> int \<Rightarrow> int option \<Rightarrow> py_error + int" where
  "binary_search_hi data target start en column =
     (if start < en
      then (let center = (start + en) div 2
            in case py_get data center of
                 Inl e \<Rightarrow> Inl e
               | Inr d \<Rightarrow>
                   (case search_column_key d column of
                      Inl e \<Rightarrow> Inl e
                    | Inr k \<Rightarrow>
                        if py_eq target k then Inr center
                        else (case py_gt target k of
                                Inl e \<Rightarrow> Inl e
                              | Inr hi \<Rightarrow>
                                  if hi then binary_search_hi data target (center + 1) en column
                                  else binary_search_hi data target start center column)))
      else Inr en)"
  by pat_completeness auto
termination
  by (relation "measure (\<lambda>(data, target, start, en, column). nat (en - start))") auto

declare binary_search_hi.simps [simp del]

text \<open>
  \<^verbatim>\<open>
  def delta_telemetry(position, live_data, delta_list, condition=True, offset=0):
      index_higher = binary_search_hi(
          delta_list, position, 0, len(delta_list) - 1, 0)
      if index_higher > 0 and condition:
          index_lower = index_higher - 1
          return (
              live_data + offset - linear_interp(
                  position,
                  delta_list[index_lower][0],
                  delta_list[index_lower][1],
                  delta_list[index_higher][0],
                  delta_list[index_higher][1],
              )
          )
      return 0
  \<close>
  The curve is a list of rows; a row is the list of its fields.
\<close>

definition delta_telemetry :: "real \<Rightarrow> real \<Rightarrow> real list list \<Rightarrow> bool \<Rightarrow> real \<Rightarrow> py_error + real" where
  "delta_telemetry position live_data delta_list condition offset =
     (case binary_search_hi (map Row delta_list) position 0 (int (length delta_list) - 1) (Some 0) of
        Inl e \<Rightarrow> Inl e
      | Inr index_higher \<Rightarrow>
          if 0 < index_higher \<and> condition
          then (let index_lower = index_higher - 1
                in case py_get delta_list index_lower of Inl e \<Rightarrow> Inl e | Inr lo \<Rightarrow>
                  (case py_get lo 0 of Inl e \<Rightarrow> Inl e | Inr x1 \<Rightarrow>
                  (case py_get lo 1 of Inl e \<Rightarrow> Inl e | Inr y1 \<Rightarrow>
                  (case py_get delta_list index_higher of Inl e \<Rightarrow> Inl e | Inr hi \<Rightarrow>
                  (case py_get hi 0 of Inl e \<Rightarrow> Inl e | Inr x2 \<Rightarrow>
                  (case py_get hi 1 of Inl e \<Rightarrow> Inl e | Inr y2 \<Rightarrow>
                  (case linear_interp position x1 y1 x2 y2 of Inl e \<Rightarrow> Inl e | Inr v \<Rightarrow>
                     Inr (live_data + offset - v))))))))
          else Inr 0)"


text \<open>\<open>keyed data column ks\<close>: \<open>ks\<close> lists the search keys of \<open>data\<close> under
  \<open>column\<close>, one number for each element.\<close>

definition keyed :: "elem list \<Rightarrow> int option \<Rightarrow> real list \<Rightarrow> bool" where
  "keyed data column ks =
     (length ks = length data
      \<and> list_all (\<lambda>i. search_column_key (data ! i) column = Inr (Num (ks ! i))) [0..<length data])"


text \<open>The first field of every row, and the rows that have the two fields
  (distance, fuel used) that \<open>delta_telemetry\<close> reads.\<close>

definition distances :: "real list list \<Rightarrow> real list" where
  "distances curve = map (\<lambda>row. row ! 0) curve"

definition two_fields :: "real list list \<Rightarrow> bool" where
  "two_fields curve = list_all (\<lambda>row. 2 \<le> length row) curve"


text \<open>The fuel used at \<open>x\<close> on the straight line through the samples \<open>idx - 1\<close> and
  \<open>idx\<close> of a curve, as a formula.\<close>

definition interp_fuel :: "real list list \<Rightarrow> nat \<Rightarrow> real \<Rightarrow> real" where
  "interp_fuel curve idx x =
     (let x1 = curve ! (idx - 1) ! 0; y1 = curve ! (idx - 1) ! 1;
          x2 = curve ! idx ! 0; y2 = curve ! idx ! 1
      in if x1 = x2 then y1 else y1 + (x - x1) * (y2 - y1) / (x2 - x1))"


subsection \<open>Double arithmetic\<close>

text \<open>
  Python floats are IEEE binary64 numbers, and every arithmetic operation returns the
  exact result rounded to the nearest double, ties to the even significand. \<open>fl\<close> is
  that rounding on the reals: \<open>double_exp x\<close> is the exponent \<open>e\<close> of the last place of
  \<open>x\<close> (\<open>2^52 \<le> |x| / 2^e < 2^53\<close>, and \<open>-1074\<close> at least, the subnormal range), found
  by halving or doubling, and \<open>x\<close> is rounded to a multiple of \<open>2^e\<close>. Overflow is left
  out. \<open>linear_interp_double\<close> and \<open>delta_telemetry_double\<close> are \<open>linear_interp\<close> and
  \<open>delta_telemetry\<close> with every operation rounded; comparisons are exact on doubles,
  so the search is the same function.
\<close>

definition pow2 :: "int \<Rightarrow> real" where
  "pow2 e = (if 0 \<le> e then 2 ^ nat e else 1 / 2 ^ nat (- e))"

fun scale_exp :: "nat \<Rightarrow> real \<Rightarrow> int \<Rightarrow> int" where
  "scale_exp 0 m e = e"
| "scale_exp (Suc n) m e =
     (if 9007199254740992 \<le> m then scale_exp n (m / 2) (e + 1)
      else if m < 4503599627370496 then scale_exp n (m * 2) (e - 1)
      else e)"

definition double_exp :: "real \<Rightarrow> int" where
  "double_exp x = max (scale_exp 2200 \<bar>x\<bar> 0) (- 1074)"

definition fl :: "real \<Rightarrow> real" where
  "fl x = (if x = 0 then 0
           else of_int (py_round (x / pow2 (double_exp x))) * pow2 (double_exp x))"

definition linear_interp_double :: "real \<Rightarrow> real \<Rightarrow> real \<Rightarrow> real \<Rightarrow> real \<Rightarrow> py_error + real" where
  "linear_interp_double x x1 y1 x2 y2 =
     (let x_diff = fl (x2 - x1)
      in if x_diff \<noteq> 0
         then (case py_div (fl (fl (x - x1) * fl (y2 - y1))) x_diff of
                 Inl e \<Rightarrow> Inl e
               | Inr q \<Rightarrow> Inr (fl (y1 + fl q)))
         else Inr y1)"

definition delta_telemetry_double ::
  "real \<Rightarrow> real \<Rightarrow> real list list \<Rightarrow> bool \<Rightarrow> real \<Rightarrow> py_error + real" where
  "delta_telemetry_double position live_data delta_list condition offset =
     (case binary_search_hi (map Row delta_list) position 0 (int (length delta_list) - 1) (Some 0) of
        Inl e \<Rightarrow> Inl e
      | Inr index_higher \<Rightarrow>
          if 0 < index_higher \<and> condition
          then (let index_lower = index_higher - 1
                in case py_get delta_list index_lower of Inl e \<Rightarrow> Inl e | Inr lo \<Rightarrow>
                  (case py_get lo 0 of Inl e \<Rightarrow> Inl e | Inr x1 \<Rightarrow>
                  (case py_get lo 1 of Inl e \<Rightarrow> Inl e | Inr y1 \<Rightarrow>
                  (case py_get delta_list index_higher of Inl e \<Rightarrow> Inl e | Inr hi \<Rightarrow>
                  (case py_get hi 0 of Inl e \<Rightarrow> Inl e | Inr x2 \<Rightarrow>
                  (case py_get hi 1 of Inl e \<Rightarrow> Inl e | Inr y2 \<Rightarrow>
                  (case linear_interp_double position x1 y1 x2 y2 of Inl e \<Rightarrow> Inl e | Inr v \<Rightarrow>
                     Inr (fl (fl (live_data + offset) - v)))))))))
          else Inr 0)"

text \<open>The interpolation at \<open>x\<close> between the samples \<open>idx - 1\<close> and \<open>idx\<close> in double
  arithmetic, as a formula.\<close>

definition interp_fuel_double :: "real list list \<Rightarrow> nat \<Rightarrow> real \<Rightarrow> real" where
  "interp_fuel_double curve idx x =
     (let x1 = curve ! (idx - 1) ! 0; y1 = curve ! (idx - 1) ! 1;
          x2 = curve ! idx ! 0; y2 = curve ! idx ! 1
      in if fl (x2 - x1) = 0 then y1
         else fl (y1 + fl (fl (fl (x - x1) * fl (y2 - y1)) / fl (x2 - x1))))"

text \<open>The doubles nearest to 0.1, 0.3, 0.7 and 0.9, and a curve with the knots
  (0.1, 0.3) and (0.7, 0.9).\<close>

definition d01 :: real where "d01 = 3602879701896397 / 36028797018963968"

definition d03 :: real where "d03 = 5404319552844595 / 18014398509481984"

definition d07 :: real where "d07 = 3152519739159347 / 4503599627370496"

definition d09 :: real where "d09 = 8106479329266893 / 9007199254740992"

definition knots_curve :: "real list list" where
  "knots_curve = [[0, 0], [d01, d03], [d07, d09]]"

section \<open>The fuel module: the estimation engine\<close>

text \<open>
  The engine's variables that the tick reads or writes up to the delta computation
  (\<^verbatim>\<open>Realtime.__update_data\<close>, lines 78 to 107). A delta list is a list of rows:
  the samples recorded during a lap have two fields, the sample that ends a lap has
  three. \<open>gps_last\<close> starts as the list \<^verbatim>\<open>[0,0,0]\<close> and later holds the tuple of
  the last reading; a list is never equal to a tuple.
\<close>

datatype py_seq = PyList "real list" | PyTuple "real list"

fun seq_items :: "py_seq \<Rightarrow> real list" where
  "seq_items (PyList xs) = xs"
| "seq_items (PyTuple xs) = xs"

definition DELTA_ZERO :: "real list" where
  "DELTA_ZERO = [0, 0]"

record engine =
  recording :: bool
  validating :: bool
  delayed_save :: bool
  pit_lap :: bool
  delta_list_last :: "real list list"
  used_last :: real
  laptime_last :: real
  delta_list_curr :: "real list list"
  delta_list_temp :: "real list list"
  amount_start :: real
  amount_last :: real
  used_curr :: real
  used_last_raw :: real
  last_lap_stime :: real
  pos_last :: real
  pos_estimate :: real
  gps_last :: py_seq
  delta_fuel :: real

text \<open>The readings of one tick, named after the accessors \<^verbatim>\<open>api.read.timing.start()\<close>,
  \<^verbatim>\<open>api.read.timing.current_laptime()\<close>, \<^verbatim>\<open>api.read.timing.last_laptime()\<close>,
  \<^verbatim>\<open>api.read.vehicle.fuel()\<close>, \<^verbatim>\<open>api.read.lap.distance()\<close>,
  \<^verbatim>\<open>api.read.vehicle.in_pits()\<close>, \<^verbatim>\<open>api.read.vehicle.in_garage()\<close> and
  \<^verbatim>\<open>api.read.vehicle.position_x()\<close>, \<^verbatim>\<open>position_y()\<close>, \<^verbatim>\<open>position_z()\<close>.\<close>

record telemetry =
  timing_start :: real
  timing_current_laptime :: real
  timing_last_laptime :: real
  vehicle_fuel :: real
  lap_distance :: real
  vehicle_in_pits :: bool
  vehicle_in_garage :: bool
  vehicle_position_x :: real
  vehicle_position_y :: real
  vehicle_position_z :: real

text \<open>The reset on entering an active session (lines 74 to 107), from the triple that
  \<^verbatim>\<open>load_deltafuel\<close> returned.\<close>

definition reset_engine :: "real list list \<times> real \<times> real \<Rightarrow> engine" where
  "reset_engine loaded =
     (case loaded of (lastlist, used, laptime) \<Rightarrow>
        \<lparr>recording = False, validating = False, delayed_save = False, pit_lap = False,
         delta_list_last = lastlist, used_last = used, laptime_last = laptime,
         delta_list_curr = [DELTA_ZERO], delta_list_temp = [DELTA_ZERO],
         amount_start = 0, amount_last = 0, used_curr = 0, used_last_raw = used,
         last_lap_stime = - 1, pos_last = 0, pos_estimate = 0,
         gps_last = PyList [0, 0, 0], delta_fuel = 0\<rparr>)"

text \<open>
  Realtime fuel consumption (lines 127 to 132):
  \<^verbatim>\<open>
  if amount_last < amount_curr:
      amount_last = amount_curr
      amount_start = amount_curr
  elif amount_last > amount_curr:
      used_curr += amount_last - amount_curr
      amount_last = amount_curr
  \<close>
\<close>

definition fuel_usage :: "engine \<Rightarrow> real \<Rightarrow> engine" where
  "fuel_usage s amount_curr =
     (if amount_last s < amount_curr
      then s\<lparr>amount_last := amount_curr, amount_start := amount_curr\<rparr>
      else if amount_curr < amount_last s
      then s\<lparr>used_curr := used_curr s + (amount_last s - amount_curr), amount_last := amount_curr\<rparr>
      else s)"

text \<open>
  Lap start and finish detection (lines 135 to 150):
  \<^verbatim>\<open>
  if lap_stime > last_lap_stime != -1:
      if len(delta_list_curr) > 1 and not pit_lap:
          delta_list_curr.append(  # set end value
              (round(pos_last + 10, 6),
               round(used_curr, 6),
               round(lap_stime - last_lap_stime, 6))
          )
          delta_list_temp = delta_list_curr
          validating = True
      delta_list_curr = [DELTA_ZERO]  # reset
      pos_last = pos_curr
      used_last_raw = used_curr
      used_curr = 0
      recording = laptime_curr < 1
      pit_lap = False
  last_lap_stime = lap_stime  # reset
  \<close>
\<close>

definition stage_lap :: "engine \<Rightarrow> real \<Rightarrow> engine" where
  "stage_lap s lap_stime =
     (if 1 < length (delta_list_curr s) \<and> \<not> pit_lap s
      then s\<lparr>delta_list_temp :=
                delta_list_curr s @
                  [[round6 (pos_last s + 10), round6 (used_curr s),
                    round6 (lap_stime - last_lap_stime s)]],
              validating := True\<rparr>
      else s)"

definition lap_detect :: "engine \<Rightarrow> real \<Rightarrow> real \<Rightarrow> real \<Rightarrow> engine" where
  "lap_detect s lap_stime laptime_curr pos_curr =
     (if last_lap_stime s < lap_stime \<and> last_lap_stime s \<noteq> - 1
      then (stage_lap s lap_stime)
             \<lparr>delta_list_curr := [DELTA_ZERO], pos_last := pos_curr,
              used_last_raw := used_curr s, used_curr := 0,
              recording := (laptime_curr < 1), pit_lap := False,
              last_lap_stime := lap_stime\<rparr>
      else s\<lparr>last_lap_stime := lap_stime\<rparr>)"

text \<open>
  The position check of the first second of a lap (lines 154 and 155), which also
  changes the tick's own \<open>pos_curr\<close>:
  \<^verbatim>\<open>
  if 0 < laptime_curr < 1 and pos_curr > 300:
      pos_last = pos_curr = 0
  \<close>
\<close>

definition distance_check :: "engine \<Rightarrow> real \<Rightarrow> real \<Rightarrow> engine \<times> real" where
  "distance_check s laptime_curr pos_curr =
     (if 0 < laptime_curr \<and> laptime_curr < 1 \<and> 300 < pos_curr
      then (s\<lparr>pos_last := 0\<rparr>, 0)
      else (s, pos_curr))"

text \<open>
  Sample recording (lines 158 to 163):
  \<^verbatim>\<open>
  if 0 <= pos_curr != pos_last:
      if recording and pos_curr > pos_last:  # position further
          delta_list_curr.append(  # keep 6 decimals
              (round(pos_curr, 6), round(used_curr, 6))
          )
      pos_estimate = pos_last = pos_curr  # reset last position
  \<close>
\<close>

definition record_sample :: "engine \<Rightarrow> real \<Rightarrow> engine" where
  "record_sample s pos_curr =
     (if 0 \<le> pos_curr \<and> pos_curr \<noteq> pos_last s
      then (if recording s \<and> pos_last s < pos_curr
            then s\<lparr>delta_list_curr :=
                     delta_list_curr s @ [[round6 pos_curr, round6 (used_curr s)]]\<rparr>
            else s)
             \<lparr>pos_estimate := pos_curr, pos_last := pos_curr\<rparr>
      else s)"

text \<open>
  Validation after the finish line (lines 166 to 176):
  \<^verbatim>\<open>
  if validating:
      if 0.2 < laptime_curr <= 3:  # compare current time
          if laptime_valid > 0:
              used_last = used_last_raw
              laptime_last = laptime_valid
              delta_list_last = delta_list_temp
              delta_list_temp = [DELTA_ZERO]
              validating = False
              delayed_save = True
      elif 3 < laptime_curr < 5:  # switch off after 3s
          validating = False
  \<close>
\<close>

definition validate_lap :: "engine \<Rightarrow> real \<Rightarrow> real \<Rightarrow> engine" where
  "validate_lap s laptime_curr laptime_valid =
     (if validating s
      then (if 2 / 10 < laptime_curr \<and> laptime_curr \<le> 3
            then (if 0 < laptime_valid
                  then s\<lparr>used_last := used_last_raw s, laptime_last := laptime_valid,
                         delta_list_last := delta_list_temp s,
                         delta_list_temp := [DELTA_ZERO],
                         validating := False, delayed_save := True\<rparr>
                  else s)
            else if 3 < laptime_curr \<and> laptime_curr < 5
            then s\<lparr>validating := False\<rparr>
            else s)
      else s)"

text \<open>
  The first part of an active tick, from reading the telemetry to the validation
  (lines 110 to 176); \<open>laptime_curr\<close> is
  \<^verbatim>\<open>max(api.read.timing.current_laptime(), 0)\<close> and \<open>pit_lap\<close> becomes
  \<^verbatim>\<open>bool(pit_lap + api.read.vehicle.in_pits())\<close>.
\<close>

definition track_tick :: "engine \<Rightarrow> telemetry \<Rightarrow> engine" where
  "track_tick s t =
     (let laptime_curr = max (timing_current_laptime t) 0;
          s1 = s\<lparr>pit_lap := (pit_lap s \<or> vehicle_in_pits t)\<rparr>;
          s2 = fuel_usage s1 (vehicle_fuel t);
          s3 = lap_detect s2 (timing_start t) laptime_curr (lap_distance t);
          (s4, pos_curr) = distance_check s3 laptime_curr (lap_distance t);
          s5 = record_sample s4 pos_curr
      in validate_lap s5 laptime_curr (timing_last_laptime t))"

text \<open>
  \<^verbatim>\<open>calc.distance(value1, value2)\<close> is \<^verbatim>\<open>math.dist(value1, value2)\<close>, which raises
  \<^verbatim>\<open>ValueError\<close> when the two points differ in dimension.
\<close>

definition distance :: "real list \<Rightarrow> real list \<Rightarrow> py_error + real" where
  "distance value1 value2 =
     (if length value1 \<noteq> length value2 then Inl ValueError
      else Inr (sqrt (sum_list (map (\<lambda>(a, b). (a - b)\<^sup>2) (zip value1 value2)))))"

text \<open>
  The delta computation (lines 178 to 187):
  \<^verbatim>\<open>
  if gps_last != gps_curr:
      pos_estimate += calc.distance(gps_last, gps_curr)
      gps_last = gps_curr
      delta_fuel = calc.delta_telemetry(
          pos_estimate,
          used_curr,
          delta_list_last,
          laptime_curr > 0.3 and not in_garage,  # 300ms delay
      )
  \<close>
  with \<^verbatim>\<open>gps_curr = (position_x(), position_y(), position_z())\<close>.
\<close>

definition delta_step :: "engine \<Rightarrow> telemetry \<Rightarrow> py_error + engine" where
  "delta_step s t =
     (let laptime_curr = max (timing_current_laptime t) 0;
          gps_curr = PyTuple [vehicle_position_x t, vehicle_position_y t, vehicle_position_z t]
      in if gps_last s \<noteq> gps_curr
         then (case distance (seq_items (gps_last s)) (seq_items gps_curr) of
                 Inl e \<Rightarrow> Inl e
               | Inr d \<Rightarrow>
                   (case delta_telemetry (pos_estimate s + d) (used_curr s) (delta_list_last s)
                           (3 / 10 < laptime_curr \<and> \<not> vehicle_in_garage t) 0 of
                      Inl e \<Rightarrow> Inl e
                    | Inr delta \<Rightarrow>
                        Inr (s\<lparr>pos_estimate := pos_estimate s + d, gps_last := gps_curr,
                               delta_fuel := delta\<rparr>)))
         else Inr s)"

text \<open>
  One active tick up to line 187. The rest of the tick (lines 189 to 256: the
  projections and the output) reads these variables and writes none of them. A tick
  that raises, here or in the projections (\<open>end_lap_pit_counts\<close>), ends the engine's
  thread.
\<close>

definition engine_tick :: "engine \<Rightarrow> telemetry \<Rightarrow> py_error + engine" where
  "engine_tick s t = delta_step (track_tick s t) t"

text \<open>A curve is sorted when every row has a distance and the distances do not
  decrease.\<close>

definition sorted_curve :: "real list list \<Rightarrow> bool" where
  "sorted_curve curve = (list_all (\<lambda>row. row \<noteq> []) curve \<and> sorted (distances curve))"

text \<open>
  The invariant of the three curves of the engine: the curve being recorded starts
  with \<open>DELTA_ZERO\<close>, its samples have distances between 0 and the (rounded) last
  checked position \<open>pos_last\<close> and are sorted; the staged and the committed curve are
  sorted.
\<close>

definition curve_inv :: "engine \<Rightarrow> bool" where
  "curve_inv s =
     ((case delta_list_curr s of
         [] \<Rightarrow> False
       | z # rest \<Rightarrow>
           z = DELTA_ZERO
           \<and> list_all (\<lambda>row. row \<noteq> [] \<and> 0 \<le> row ! 0 \<and> row ! 0 \<le> round6 (pos_last s)) rest
           \<and> sorted (distances rest))
      \<and> sorted_curve (delta_list_temp s) \<and> sorted_curve (delta_list_last s))"

text \<open>The part of the invariant about the curve being recorded, with the bound explicit.\<close>

definition recorded_ok :: "real list list \<Rightarrow> real \<Rightarrow> bool" where
  "recorded_ok curve b =
     (case curve of
        [] \<Rightarrow> False
      | z # rest \<Rightarrow>
          z = DELTA_ZERO
          \<and> list_all (\<lambda>row. row \<noteq> [] \<and> 0 \<le> row ! 0 \<and> row ! 0 \<le> b) rest
          \<and> sorted (distances rest))"

text \<open>
  The ticks on which the position readings are regular: a new lap starts, or the
  300 m check fires while nothing but \<open>DELTA_ZERO\<close> is recorded, or it does not fire
  and the lap distance is negative (ignored) or not below the last checked position.
\<close>

definition new_lap :: "engine \<Rightarrow> telemetry \<Rightarrow> bool" where
  "new_lap s t = (last_lap_stime s < timing_start t \<and> last_lap_stime s \<noteq> - 1)"

definition regular_tick :: "engine \<Rightarrow> telemetry \<Rightarrow> bool" where
  "regular_tick s t =
     (new_lap s t
      \<or> (if 0 < timing_current_laptime t \<and> timing_current_laptime t < 1 \<and> 300 < lap_distance t
         then tl (delta_list_curr s) = []
         else lap_distance t < 0 \<or> pos_last s \<le> lap_distance t))"

text \<open>The engine after a list of ticks, and the runs all of whose ticks are regular.\<close>

fun run_ticks :: "engine \<Rightarrow> telemetry list \<Rightarrow> py_error + engine" where
  "run_ticks s [] = Inr s"
| "run_ticks s (t # ts) =
     (case engine_tick s t of Inl e \<Rightarrow> Inl e | Inr s' \<Rightarrow> run_ticks s' ts)"

fun regular_run :: "engine \<Rightarrow> telemetry list \<Rightarrow> bool" where
  "regular_run s [] = True"
| "regular_run s (t # ts) =
     (regular_tick s t
      \<and> (case engine_tick s t of Inl e \<Rightarrow> True | Inr s' \<Rightarrow> regular_run s' ts))"

text \<open>A reading taken on the track (not in the pits or the garage) of a car that moves
  along the x axis, and the engine of a session that finds no saved curve (the
  default of \<^verbatim>\<open>load_deltafuel\<close>).\<close>

definition reading :: "real \<Rightarrow> real \<Rightarrow> real \<Rightarrow> real \<Rightarrow> real \<Rightarrow> telemetry" where
  "reading lap_stime laptime laptime_valid fuel pos =
     \<lparr>timing_start = lap_stime, timing_current_laptime = laptime,
      timing_last_laptime = laptime_valid, vehicle_fuel = fuel, lap_distance = pos,
      vehicle_in_pits = False, vehicle_in_garage = False,
      vehicle_position_x = pos, vehicle_position_y = 0, vehicle_position_z = 0\<rparr>"

definition first_session :: engine where
  "first_session = reset_engine ([[99999, 0, 0]], 0, 0)"

text \<open>
  The states of two runs of such a session. The car is first seen at 900 m, starts
  a lap at 0 m and is sampled at 100 m. In the first run it then rolls back to 50 m
  and drives on to 60 m. In the second run it crosses the line again and is next
  seen 6 seconds into the new lap.
\<close>

definition on_track :: engine where
  "on_track = first_session
     \<lparr>amount_start := 50, amount_last := 50, last_lap_stime := 10, pos_last := 900,
      pos_estimate := 1800, gps_last := PyTuple [900, 0, 0]\<rparr>"

definition lap_begun :: engine where
  "lap_begun = on_track
     \<lparr>recording := True, last_lap_stime := 100, pos_last := 0, pos_estimate := 2700,
      gps_last := PyTuple [0, 0, 0]\<rparr>"

definition sample_100 :: engine where
  "sample_100 = lap_begun
     \<lparr>amount_last := 49, used_curr := 1, delta_list_curr := [DELTA_ZERO, [100, 1]],
      pos_last := 100, pos_estimate := 200, gps_last := PyTuple [100, 0, 0]\<rparr>"

definition rolled_back :: engine where
  "rolled_back = sample_100
     \<lparr>amount_last := 97 / 2, used_curr := 3 / 2, pos_last := 50, pos_estimate := 100,
      gps_last := PyTuple [50, 0, 0]\<rparr>"

definition sample_60 :: engine where
  "sample_60 = rolled_back
     \<lparr>amount_last := 48, used_curr := 2,
      delta_list_curr := [DELTA_ZERO, [100, 1], [60, 2]],
      pos_last := 60, pos_estimate := 70, gps_last := PyTuple [60, 0, 0]\<rparr>"

definition lap_staged :: engine where
  "lap_staged = sample_100
     \<lparr>validating := True, amount_last := 48, used_curr := 0, used_last_raw := 2,
      delta_list_curr := [DELTA_ZERO], delta_list_temp := [DELTA_ZERO, [100, 1], [110, 2, 100]],
      last_lap_stime := 200, pos_last := 0, pos_estimate := 300,
      gps_last := PyTuple [0, 0, 0]\<rparr>"

definition staged_6s :: engine where
  "staged_6s = lap_staged
     \<lparr>delta_list_curr := [DELTA_ZERO, [100, 0]], pos_last := 100, pos_estimate := 200,
      gps_last := PyTuple [100, 0, 0]\<rparr>"

section \<open>The fuel module: the curve store\<close>

text \<open>
  A curve file is read with \<^verbatim>\<open>csv.reader(csvfile, quoting=csv.QUOTE_NONNUMERIC)\<close> and
  written with \<^verbatim>\<open>csv.writer(csvfile).writerows(listname)\<close>. The model keeps the csv
  library at the level of fields. A field of a line is
  \<^item> \<open>Number x\<close>: an unquoted field that \<^verbatim>\<open>float()\<close> accepts, the reader returns the
    float;
  \<^item> \<open>Text s\<close>: an unquoted field that \<^verbatim>\<open>float()\<close> rejects: the reader raises
    \<^verbatim>\<open>ValueError\<close>, unless the field is empty, which it returns as the empty string;
  \<^item> \<open>Quoted s\<close>: a quoted field, which the reader returns as the string \<open>s\<close>
    without raising.
  \<open>Unparsable\<close> is a line on which the reader raises \<^verbatim>\<open>csv.Error\<close> (a field longer
  than the field size limit, for one). A file that cannot be opened because
  permission is denied is \<open>Unreadable\<close>: \<^verbatim>\<open>open\<close> raises \<^verbatim>\<open>PermissionError\<close>, for
  reading and for writing. The writer writes every number in full, so reading a
  written number gives the number back. The directory of curve files maps a combo id
  to its file.
\<close>

datatype py_value = PyFloat real | PyStr string

datatype csv_field = Number real | Text string | Quoted string

datatype csv_line = Fields "csv_field list" | Unparsable

datatype fuel_file = Content "csv_line list" | Unreadable

type_synonym fuel_dir = "string \<Rightarrow> fuel_file option"

definition open_read :: "fuel_dir \<Rightarrow> string \<Rightarrow> py_error + csv_line list" where
  "open_read dir combo =
     (case dir combo of
        None \<Rightarrow> Inl FileNotFoundError
      | Some Unreadable \<Rightarrow> Inl PermissionError
      | Some (Content csvfile) \<Rightarrow> Inr csvfile)"

fun read_field :: "csv_field \<Rightarrow> py_error + py_value" where
  "read_field (Number x) = Inr (PyFloat x)"
| "read_field (Text s) = (if s = [] then Inr (PyStr s) else Inl ValueError)"
| "read_field (Quoted s) = Inr (PyStr s)"

fun read_row :: "csv_field list \<Rightarrow> py_error + py_value list" where
  "read_row [] = Inr []"
| "read_row (f # fs) =
     (case read_field f of
        Inl e \<Rightarrow> Inl e
      | Inr x \<Rightarrow> (case read_row fs of Inl e \<Rightarrow> Inl e | Inr xs \<Rightarrow> Inr (x # xs)))"

fun csv_reader :: "csv_line list \<Rightarrow> py_error + py_value list list" where
  "csv_reader [] = Inr []"
| "csv_reader (Unparsable # ls) = Inl CsvError"
| "csv_reader (Fields r # ls) =
     (case read_row r of
        Inl e \<Rightarrow> Inl e
      | Inr row \<Rightarrow> (case csv_reader ls of Inl e \<Rightarrow> Inl e | Inr rows \<Rightarrow> Inr (row # rows)))"

definition csv_writerows :: "real list list \<Rightarrow> csv_line list" where
  "csv_writerows rows = map (\<lambda>row. Fields (map Number row)) rows"

text \<open>
  Modelled from the spec: \<^verbatim>\<open>validator.delta_list\<close> (module \<^verbatim>\<open>validator.py\<close>) is
  called by \<^verbatim>\<open>load_deltafuel\<close> and is not among the sources. The spec says of it:
  ``Validation drops rows that break the non-decreasing-distance invariant or contain
  non-finite numbers'', and of the load that non-numeric values make it fall back to
  the default. The model first takes every field of every row as a number, which
  raises \<^verbatim>\<open>TypeError\<close> on a string (non-finite numbers do not exist among the reals);
  it then keeps the first row and every later row whose distance is not below the
  distance of the row kept last. A row with no field has no distance and raises
  \<^verbatim>\<open>IndexError\<close>. The shape of a row is not checked otherwise.
\<close>

fun as_number :: "py_value \<Rightarrow> py_error + real" where
  "as_number (PyFloat x) = Inr x"
| "as_number (PyStr s) = Inl TypeError"

fun row_numbers :: "py_value list \<Rightarrow> py_error + real list" where
  "row_numbers [] = Inr []"
| "row_numbers (v # vs) =
     (case as_number v of
        Inl e \<Rightarrow> Inl e
      | Inr x \<Rightarrow> (case row_numbers vs of Inl e \<Rightarrow> Inl e | Inr xs \<Rightarrow> Inr (x # xs)))"

fun rows_numbers :: "py_value list list \<Rightarrow> py_error + real list list" where
  "rows_numbers [] = Inr []"
| "rows_numbers (r # rs) =
     (case row_numbers r of
        Inl e \<Rightarrow> Inl e
      | Inr row \<Rightarrow> (case rows_numbers rs of Inl e \<Rightarrow> Inl e | Inr rows \<Rightarrow> Inr (row # rows)))"

fun keep_ascending :: "real \<Rightarrow> real list list \<Rightarrow> py_error + real list list" where
  "keep_ascending d [] = Inr []"
| "keep_ascending d (row # rows) =
     (case py_get row 0 of
        Inl e \<Rightarrow> Inl e
      | Inr x \<Rightarrow>
          if d \<le> x
          then (case keep_ascending x rows of Inl e \<Rightarrow> Inl e | Inr kept \<Rightarrow> Inr (row # kept))
          else keep_ascending d rows)"

definition keep_rows :: "real list list \<Rightarrow> py_error + real list list" where
  "keep_rows rows =
     (case rows of
        [] \<Rightarrow> Inr []
      | row # rest \<Rightarrow>
          (case py_get row 0 of
             Inl e \<Rightarrow> Inl e
           | Inr x \<Rightarrow>
               (case keep_ascending x rest of Inl e \<Rightarrow> Inl e | Inr kept \<Rightarrow> Inr (row # kept))))"

definition delta_list :: "py_value list list \<Rightarrow> py_error + real list list" where
  "delta_list temp_list =
     (case rows_numbers temp_list of Inl e \<Rightarrow> Inl e | Inr rows \<Rightarrow> keep_rows rows)"

text \<open>
  \<^verbatim>\<open>
  def save_deltafuel(self, combo, listname):
      if len(listname) >= 10:
          with open(f"{self.filepath}{combo}.fuel",
                    "w", newline="", encoding="utf-8") as csvfile:
              deltawrite = csv.writer(csvfile)
              deltawrite.writerows(listname)
  \<close>
\<close>

definition save_deltafuel :: "fuel_dir \<Rightarrow> string \<Rightarrow> real list list \<Rightarrow> py_error + fuel_dir" where
  "save_deltafuel dir combo listname =
     (if 10 \<le> length listname
      then (case dir combo of
              Some Unreadable \<Rightarrow> Inl PermissionError
            | _ \<Rightarrow> Inr (dir(combo \<mapsto> Content (csv_writerows listname))))
      else Inr dir)"

text \<open>
  \<^verbatim>\<open>
  def load_deltafuel(self, combo):
      try:
          with open(f"{self.filepath}{combo}.fuel",
                    newline="", encoding="utf-8") as csvfile:
              temp_list = list(csv.reader(csvfile, quoting=csv.QUOTE_NONNUMERIC))
              temp_list_size = len(temp_list)
              # Validate data
              lastlist = val.delta_list(temp_list)
              used_last = lastlist[-1][1]
              laptime_last = lastlist[-1][2]
              # Save data if modified
              if temp_list_size != len(lastlist):
                  self.save_deltafuel(combo, lastlist)
      except (FileNotFoundError, IndexError, ValueError, TypeError):
          logger.info("MISSING: fuel data")
          lastlist = [(99999,0,0)]
          used_last = 0
          laptime_last = 0
      return lastlist, used_last, laptime_last
  \<close>
  \<open>load_try\<close> is the body of the \<^verbatim>\<open>try\<close>; the result carries the directory, which the
  re-save may have changed. An exception that the \<^verbatim>\<open>except\<close> clause does not name
  leaves \<open>load_deltafuel\<close> as it is raised.
\<close>

definition load_try ::
  "fuel_dir \<Rightarrow> string \<Rightarrow> py_error + ((real list list \<times> real \<times> real) \<times> fuel_dir)" where
  "load_try dir combo =
     (case open_read dir combo of
        Inl e \<Rightarrow> Inl e
      | Inr csvfile \<Rightarrow>
          (case csv_reader csvfile of
             Inl e \<Rightarrow> Inl e
           | Inr temp_list \<Rightarrow>
               (case delta_list temp_list of
                  Inl e \<Rightarrow> Inl e
                | Inr lastlist \<Rightarrow>
                    (case py_get lastlist (- 1) of
                       Inl e \<Rightarrow> Inl e
                     | Inr final \<Rightarrow>
                         (case py_get final 1 of
                            Inl e \<Rightarrow> Inl e
                          | Inr used \<Rightarrow>
                              (case py_get final 2 of
                                 Inl e \<Rightarrow> Inl e
                               | Inr laptime \<Rightarrow>
                                   (if length temp_list \<noteq> length lastlist
                                    then (case save_deltafuel dir combo lastlist of
                                            Inl e \<Rightarrow> Inl e
                                          | Inr dir' \<Rightarrow> Inr ((lastlist, used, laptime), dir'))
                                    else Inr ((lastlist, used, laptime), dir))))))))"

definition load_deltafuel ::
  "fuel_dir \<Rightarrow> string \<Rightarrow> py_error + ((real list list \<times> real \<times> real) \<times> fuel_dir)" where
  "load_deltafuel dir combo =
     (case load_try dir combo of
        Inr r \<Rightarrow> Inr r
      | Inl e \<Rightarrow>
          if e = FileNotFoundError \<or> e = IndexError \<or> e = ValueError \<or> e = TypeError
          then Inr (([[99999, 0, 0]], 0, 0), dir)
          else Inl e)"

text \<open>A curve of ten samples, as the engine records them (nine two-field rows and the
  three-field row that ends the lap), and a curve of ten samples recorded on a lap
  on which the car rolled back from 100 m to 60 m.\<close>

definition ten_samples :: "real list list" where
  "ten_samples =
     [[0, 0], [10, 1], [20, 2], [30, 3], [40, 4], [50, 5], [60, 6], [70, 7], [80, 8],
      [100, 9, 60]]"

definition rolled_back_lap :: "real list list" where
  "rolled_back_lap =
     [[0, 0], [100, 1], [60, 2], [70, 3], [80, 4], [90, 5], [110, 6], [120, 7], [130, 8],
      [140, 9, 100]]"

section \<open>Binary search and delta telemetry\<close>

lemma keyed_nth:
  "keyed data column ks \<Longrightarrow> i < length data \<Longrightarrow> search_column_key (data ! i) column = Inr (Num (ks ! i))"
  by (simp add: keyed_def list_all_iff)

lemma py_get_in_range: "0 \<le> i \<Longrightarrow> i < int (length xs) \<Longrightarrow> py_get xs i = Inr (xs ! nat i)"
  by (simp add: py_get_def)

lemma bs_done: "\<not> start < en \<Longrightarrow> binary_search_hi data target start en column = Inr en"
  by (simp add: binary_search_hi.simps)

lemma bs_unfold:
  assumes k: "keyed data column ks" and r: "0 \<le> start" "start < en" "en < int (length data)"
  shows "binary_search_hi data target start en column =
     (if target = ks ! nat ((start + en) div 2) then Inr ((start + en) div 2)
      else if ks ! nat ((start + en) div 2) < target
           then binary_search_hi data target ((start + en) div 2 + 1) en column
           else binary_search_hi data target start ((start + en) div 2) column)"
proof -
  let ?c = "(start + en) div 2"
  from r have c: "0 \<le> ?c" "?c < int (length data)" by linarith+
  then have g: "py_get data ?c = Inr (data ! nat ?c)" by (rule py_get_in_range)
  from c have "nat ?c < length data" by linarith
  with k have sk: "search_column_key (data ! nat ?c) column = Inr (Num (ks ! nat ?c))"
    by (rule keyed_nth)
  from r(2) show ?thesis
    by (subst binary_search_hi.simps) (simp add: g sk Let_def)
qed

lemma bs_range:
  assumes k: "keyed data column ks"
  shows "0 \<le> start \<Longrightarrow> start \<le> en \<Longrightarrow> en < int (length data) \<Longrightarrow>
    \<exists>r. binary_search_hi data target start en column = Inr r \<and> start \<le> r \<and> r \<le> en"
proof (induction "nat (en - start)" arbitrary: start en rule: less_induct)
  case less
  show ?case
  proof (cases "start < en")
    case False
    with less.prems show ?thesis by (simp add: bs_done)
  next
    case True
    let ?c = "(start + en) div 2"
    from True have c: "start \<le> ?c" "?c < en" by linarith+
    note u = bs_unfold [OF k less.prems(1) True less.prems(3), of target]
    have up: "\<exists>r. binary_search_hi data target (?c + 1) en column = Inr r \<and> ?c + 1 \<le> r \<and> r \<le> en"
      using less.prems c by (intro less.hyps) linarith+
    have lo: "\<exists>r. binary_search_hi data target start ?c column = Inr r \<and> start \<le> r \<and> r \<le> ?c"
      using less.prems c by (intro less.hyps) linarith+
    from up lo c show ?thesis
      unfolding u by (auto intro: order_trans)
  qed
qed

lemma bs_sorted:
  assumes k: "keyed data column ks" and s: "sorted ks"
  shows "0 \<le> start \<Longrightarrow> start \<le> en \<Longrightarrow> en < int (length data) \<Longrightarrow>
    (\<forall>j. int j < start \<longrightarrow> ks ! j < target) \<Longrightarrow>
    \<exists>r. binary_search_hi data target start en column = Inr r \<and> start \<le> r \<and> r \<le> en \<and>
      (if target \<le> ks ! nat en
       then target \<le> ks ! nat r \<and> (ks ! nat r = target \<or> (\<forall>j. int j < r \<longrightarrow> ks ! j < target))
       else r = en)"
proof (induction "nat (en - start)" arbitrary: start en rule: less_induct)
  case less
  from k have len: "length ks = length data" by (simp add: keyed_def)
  show ?case
  proof (cases "start < en")
    case False
    with less.prems show ?thesis by (simp add: bs_done)
  next
    case True
    let ?c = "(start + en) div 2"
    from True less.prems have c: "start \<le> ?c" "?c < en" "0 \<le> ?c" by linarith+
    note u = bs_unfold [OF k less.prems(1) True less.prems(3), of target]
    have mono: "ks ! nat ?c \<le> ks ! nat en"
      using s c less.prems len by (intro sorted_nth_mono) linarith+
    consider (eq) "target = ks ! nat ?c" | (hi) "ks ! nat ?c < target" | (lo) "target < ks ! nat ?c"
      by linarith
    then show ?thesis
    proof cases
      case eq
      with u c mono show ?thesis by auto
    next
      case hi
      have pre: "\<forall>j. int j < ?c + 1 \<longrightarrow> ks ! j < target"
      proof (intro allI impI)
        fix j assume "int j < ?c + 1"
        then have "j \<le> nat ?c" by linarith
        moreover have "nat ?c < length ks" using c less.prems len by linarith
        ultimately have "ks ! j \<le> ks ! nat ?c" using s by (intro sorted_nth_mono)
        with hi show "ks ! j < target" by linarith
      qed
      have "\<exists>r. binary_search_hi data target (?c + 1) en column = Inr r \<and> ?c + 1 \<le> r \<and> r \<le> en \<and>
        (if target \<le> ks ! nat en
         then target \<le> ks ! nat r \<and> (ks ! nat r = target \<or> (\<forall>j. int j < r \<longrightarrow> ks ! j < target))
         else r = en)"
        using less.prems c pre by (intro less.hyps) linarith+
      then obtain r where r: "binary_search_hi data target (?c + 1) en column = Inr r"
        "?c + 1 \<le> r" "r \<le> en"
        "if target \<le> ks ! nat en
         then target \<le> ks ! nat r \<and> (ks ! nat r = target \<or> (\<forall>j. int j < r \<longrightarrow> ks ! j < target))
         else r = en" by blast
      from hi have "binary_search_hi data target start en column = Inr r"
        unfolding u using r(1) by simp
      moreover from r(2) c have "start \<le> r" by linarith
      ultimately show ?thesis using r(3,4) by blast
    next
      case lo
      have "\<exists>r. binary_search_hi data target start ?c column = Inr r \<and> start \<le> r \<and> r \<le> ?c \<and>
        (if target \<le> ks ! nat ?c
         then target \<le> ks ! nat r \<and> (ks ! nat r = target \<or> (\<forall>j. int j < r \<longrightarrow> ks ! j < target))
         else r = ?c)"
        using less.prems c by (intro less.hyps) linarith+
      then obtain r where r: "binary_search_hi data target start ?c column = Inr r"
        "start \<le> r" "r \<le> ?c"
        "target \<le> ks ! nat r \<and> (ks ! nat r = target \<or> (\<forall>j. int j < r \<longrightarrow> ks ! j < target))"
        using lo by (auto split: if_splits)
      from lo have "binary_search_hi data target start en column = Inr r"
        unfolding u using r(1) by simp
      moreover from r(3) c have "r \<le> en" by linarith
      moreover from lo mono have "target \<le> ks ! nat en" by linarith
      ultimately show ?thesis using r(2,4) by auto
    qed
  qed
qed

lemma two_fields_nth: "two_fields curve \<Longrightarrow> i < length curve \<Longrightarrow> 2 \<le> length (curve ! i)"
  by (simp add: two_fields_def list_all_length)

lemma keyed_rows:
  assumes "two_fields curve"
  shows "keyed (map Row curve) (Some 0) (distances curve)"
proof -
  have "search_column_key (map Row curve ! i) (Some 0) = Inr (Num (distances curve ! i))"
    if "i < length curve" for i
    using two_fields_nth [OF assms that] that by (auto simp: distances_def py_get_def)
  then show ?thesis
    by (simp add: keyed_def list_all_iff distances_def)
qed

lemma bs_top:
  assumes k: "keyed data column ks" and s: "sorted ks" and ne: "data \<noteq> []"
  shows "\<exists>r. binary_search_hi data target 0 (int (length data) - 1) column = Inr r
      \<and> 0 \<le> r \<and> r < int (length data)
      \<and> (if target \<le> last ks
          then target \<le> ks ! nat r \<and> (ks ! nat r = target \<or> (\<forall>j. int j < r \<longrightarrow> ks ! j < target))
          else r = int (length data) - 1)"
proof -
  from k have len: "length ks = length data" by (simp add: keyed_def)
  with ne have l: "last ks = ks ! nat (int (length data) - 1)"
    by (cases ks rule: rev_cases) (auto simp: nth_append nat_diff_distrib')
  from ne have r: "(0::int) \<le> 0" "0 \<le> int (length data) - 1" "int (length data) - 1 < int (length data)"
    by (simp_all add: Suc_le_eq)
  have p: "\<forall>j. int j < 0 \<longrightarrow> ks ! j < target" by simp
  from bs_sorted [OF k s r p] show ?thesis
    unfolding l by (auto split: if_splits)
qed

lemma bs_knot:
  assumes k: "keyed data column ks" and s: "sorted_wrt (<) ks" and i: "i < length data"
  shows "binary_search_hi data (ks ! i) 0 (int (length data) - 1) column = Inr (int i)"
proof -
  from k have len: "length ks = length data" by (simp add: keyed_def)
  from i have ne: "data \<noteq> []" by auto
  from s have srt: "sorted ks" by (rule strict_sorted_imp_sorted)
  have lt: "ks ! a < ks ! b" if "a < b" "b < length ks" for a b
    using s that by (simp add: sorted_wrt_nth_less)
  have "ks \<noteq> []" using ne len by auto
  then have "last ks = ks ! (length ks - 1)" by (rule last_conv_nth)
  moreover have "ks ! i \<le> ks ! (length ks - 1)"
    using srt i len by (intro sorted_nth_mono) auto
  ultimately have "ks ! i \<le> last ks" by simp
  with bs_top [OF k srt ne, of "ks ! i"] obtain r where
    r: "binary_search_hi data (ks ! i) 0 (int (length data) - 1) column = Inr r"
       "0 \<le> r" "r < int (length data)" "ks ! i \<le> ks ! nat r"
       "ks ! nat r = ks ! i \<or> (\<forall>j. int j < r \<longrightarrow> ks ! j < ks ! i)"
    by auto
  have "nat r = i"
  proof (rule ccontr)
    assume neq: "nat r \<noteq> i"
    then consider "nat r < i" | "i < nat r" by linarith
    then show False
    proof cases
      case 1
      then have "ks ! nat r < ks ! i" using lt i len by simp
      with r(4) show False by simp
    next
      case 2
      then have a: "ks ! i < ks ! nat r" using lt r(3) len by simp
      with r(5) have "\<forall>j. int j < r \<longrightarrow> ks ! j < ks ! i" by auto
      moreover from 2 r(2) have "int i < r" by linarith
      ultimately show False by blast
    qed
  qed
  with r(1,2) show ?thesis by auto
qed

text \<open>
  Claim C3 (as amended). Let \<open>data\<close> have the keys \<open>ks\<close> in non-decreasing order and
  search the whole list, from 0 to \<open>len(data) - 1\<close>. On an empty list the result is
  \<open>-1\<close>. Otherwise the result \<open>r\<close> is an index of the list. If the target is at most
  the last key, the key at \<open>r\<close> is at least the target, and either it equals the
  target (the search returns at the first equal key it probes) or every key before
  \<open>r\<close> is below the target; when the keys are strictly ascending every key before
  \<open>r\<close> is below the target, so \<open>r\<close> is the first index whose key is at least the
  target. If the target is above every key the result is the last index.
\<close>

theorem binary_search_hi_sorted:
  assumes "keyed data column ks" and "sorted ks"
  shows "\<exists>r. binary_search_hi data target 0 (int (length data) - 1) column = Inr r
      \<and> (if data = [] then r = - 1
          else 0 \<le> r \<and> r < int (length data)
             \<and> (if target \<le> last ks
                 then target \<le> ks ! nat r
                    \<and> (ks ! nat r = target \<or> list_all (\<lambda>j. ks ! j < target) [0..<nat r])
                    \<and> (sorted_wrt (<) ks \<longrightarrow> list_all (\<lambda>j. ks ! j < target) [0..<nat r])
                 else r = int (length data) - 1))"
proof (cases "data = []")
  case True
  then show ?thesis by (simp add: bs_done)
next
  case False
  from assms(1) have len: "length ks = length data" by (simp add: keyed_def)
  from bs_top [OF assms False, of target] obtain r where
    r: "binary_search_hi data target 0 (int (length data) - 1) column = Inr r"
       "0 \<le> r" "r < int (length data)"
       "if target \<le> last ks
        then target \<le> ks ! nat r \<and> (ks ! nat r = target \<or> (\<forall>j. int j < r \<longrightarrow> ks ! j < target))
        else r = int (length data) - 1"
    by blast
  have strict: "list_all (\<lambda>j. ks ! j < target) [0..<nat r]"
    if a: "ks ! nat r = target" and s: "sorted_wrt (<) ks"
  proof -
    have "ks ! j < ks ! nat r" if "j < nat r" for j
      using sorted_wrt_nth_less [OF s, of j "nat r"] that r(3) len by simp
    with a show ?thesis by (simp add: list_all_iff)
  qed
  have conv: "(\<forall>j. int j < r \<longrightarrow> ks ! j < target) \<Longrightarrow> list_all (\<lambda>j. ks ! j < target) [0..<nat r]"
    using r(2) by (simp add: list_all_iff)
  show ?thesis
  proof (cases "target \<le> last ks")
    case True
    with r(4) have t: "target \<le> ks ! nat r"
      and d: "ks ! nat r = target \<or> (\<forall>j. int j < r \<longrightarrow> ks ! j < target)" by auto
    from d conv have d': "ks ! nat r = target \<or> list_all (\<lambda>j. ks ! j < target) [0..<nat r]" by blast
    from d conv strict have d'': "sorted_wrt (<) ks \<longrightarrow> list_all (\<lambda>j. ks ! j < target) [0..<nat r]"
      by blast
    from False True r(1,2,3) t d' d'' show ?thesis by auto
  next
    case no: False
    with r(4) have "r = int (length data) - 1" by simp
    with False no r(1,2,3) show ?thesis by auto
  qed
qed

theorem binary_search_hi_sorted_witness:
  "keyed (map Row [[0, 0], [50, 2], [100, 5, 60]]) (Some 0) [0, 50, 100] \<and> sorted [0, 50, 100 :: real]
   \<and> binary_search_hi (map Row [[0, 0], [50, 2], [100, 5, 60]]) 70 0 2 (Some 0) = Inr 2"
proof -
  have k: "keyed (map Row [[0, 0], [50, 2], [100, 5, 60]]) (Some 0) [0, 50, 100]"
    by (simp add: keyed_def py_get_def upt_rec)
  have s: "sorted [0, 50, 100 :: real]" by simp
  have "binary_search_hi (map Row [[0, 0], [50, 2], [100, 5, 60]]) 70 0 2 (Some 0) = Inr 2"
    by (simp add: binary_search_hi.simps py_get_def)
  with k s binary_search_hi_sorted [OF k s, of 70] show ?thesis by simp
qed

text \<open>
  The claim as written fails in two ways. With a target above every key the search
  returns the last index, whose key is below the target. With equal keys it returns
  the one it probes first, which need not be the first of them.
\<close>

theorem binary_search_hi_first_counterexample:
  "sorted [1, 2, 3 :: real]
   \<and> binary_search_hi [Num 1, Num 2, Num 3] 5 0 (int (length [Num 1, Num 2, Num 3]) - 1) None = Inr 2
   \<and> [1, 2, 3 :: real] ! 2 < 5
   \<and> sorted [1, 1, 1 :: real]
   \<and> binary_search_hi [Num 1, Num 1, Num 1] 1 0 (int (length [Num 1, Num 1, Num 1]) - 1) None = Inr 1
   \<and> 1 \<le> [1, 1, 1 :: real] ! 0"
  by (simp add: binary_search_hi.simps py_get_def)

lemma py_get_fields:
  "2 \<le> length row \<Longrightarrow> py_get row 0 = Inr (row ! 0) \<and> py_get row 1 = Inr (row ! 1)"
  by (auto simp: py_get_def)

lemma delta_telemetry_eval:
  assumes b: "binary_search_hi (map Row curve) position 0 (int (length curve) - 1) (Some 0) = Inr idx"
    and c: "0 < idx" "condition"
    and g: "py_get curve (idx - 1) = Inr lo" "py_get curve idx = Inr hi"
    and l: "2 \<le> length lo" "2 \<le> length hi"
  shows "delta_telemetry position live_data curve condition offset =
     (case linear_interp position (lo ! 0) (lo ! 1) (hi ! 0) (hi ! 1) of
        Inl e \<Rightarrow> Inl e | Inr v \<Rightarrow> Inr (live_data + offset - v))"
  using c py_get_fields [OF l(1)] py_get_fields [OF l(2)]
  by (simp add: delta_telemetry_def b g Let_def)

text \<open>The rounding of doubles, evaluated.\<close>

lemma scale_exp_numeral:
  "scale_exp (numeral k) m e =
     (if 9007199254740992 \<le> m then scale_exp (pred_numeral k) (m / 2) (e + 1)
      else if m < 4503599627370496 then scale_exp (pred_numeral k) (m * 2) (e - 1)
      else e)"
  by (simp add: numeral_eq_Suc)

lemmas fl_eval = fl_def double_exp_def scale_exp_numeral pow2_def py_round_def Let_def

lemma fl_zero: "fl 0 = 0"
  by (simp add: fl_def)

lemma delta_telemetry_double_eval:
  assumes b: "binary_search_hi (map Row curve) position 0 (int (length curve) - 1) (Some 0) = Inr idx"
    and c: "0 < idx" "condition"
    and g: "py_get curve (idx - 1) = Inr lo" "py_get curve idx = Inr hi"
    and l: "2 \<le> length lo" "2 \<le> length hi"
  shows "delta_telemetry_double position live_data curve condition offset =
     (case linear_interp_double position (lo ! 0) (lo ! 1) (hi ! 0) (hi ! 1) of
        Inl e \<Rightarrow> Inl e | Inr v \<Rightarrow> Inr (fl (fl (live_data + offset) - v)))"
  using c py_get_fields [OF l(1)] py_get_fields [OF l(2)]
  by (simp add: delta_telemetry_double_def b g Let_def)

lemma linear_interp_double_knot:
  "linear_interp_double x2 x1 y1 x2 y2 =
     Inr (if fl (x2 - x1) = 0 then y1
          else fl (y1 + fl (fl (fl (x2 - x1) * fl (y2 - y1)) / fl (x2 - x1))))"
  by (simp add: linear_interp_double_def py_div_def Let_def)

lemma knot_interp_double:
  "linear_interp_double d07 d01 d03 d07 d09 = Inr (4053239664633447 / 4503599627370496)"
  by (simp add: linear_interp_double_def py_div_def fl_eval d01_def d03_def d07_def d09_def)

lemma knot_search: "binary_search_hi (map Row knots_curve) d07 0 2 (Some 0) = Inr 2"
  by (simp add: binary_search_hi.simps py_get_def knots_curve_def d01_def d07_def)

text \<open>
  Claim C7 (as amended). On a curve with strictly ascending distances (every row
  holding a distance and a fuel value), for every index \<open>i > 0\<close> the search for the
  distance of sample \<open>i\<close> over the whole curve returns \<open>i\<close>. At that position, with
  the condition true and offset 0, \<open>delta_telemetry\<close> returns the live usage minus
  the interpolation formula \<open>y1 + (x - x1) * (y2 - y1) / (x2 - x1)\<close> between the
  samples \<open>i - 1\<close> and \<open>i\<close>. In exact arithmetic the formula gives the fuel value of
  sample \<open>i\<close>, so the result is exactly the live usage minus that value. In double
  arithmetic every operation of the formula and of the subtraction is rounded, and
  the result need not be the live usage minus the fuel value of sample \<open>i\<close>.
\<close>

theorem delta_telemetry_knot:
  assumes wf: "two_fields curve" and s: "sorted_wrt (<) (distances curve)"
    and i: "0 < i" "i < length curve"
  shows "binary_search_hi (map Row curve) (curve ! i ! 0) 0 (int (length curve) - 1) (Some 0) = Inr (int i)
     \<and> delta_telemetry (curve ! i ! 0) live_data curve True 0 = Inr (live_data - curve ! i ! 1)
     \<and> delta_telemetry_double (curve ! i ! 0) live_data curve True 0 =
         Inr (fl (fl (live_data + 0) - interp_fuel_double curve i (curve ! i ! 0)))"
proof -
  have k: "keyed (map Row curve) (Some 0) (distances curve)" using wf by (rule keyed_rows)
  from i have di: "distances curve ! i = curve ! i ! 0" by (simp add: distances_def)
  from i have il: "i < length (map Row curve)" by simp
  from bs_knot [OF k s il] have b:
    "binary_search_hi (map Row curve) (curve ! i ! 0) 0 (int (length curve) - 1) (Some 0) = Inr (int i)"
    by (simp add: di)
  from i have i1: "i - 1 < length curve" by simp
  have l1: "2 \<le> length (curve ! (i - 1))" using wf i1 by (rule two_fields_nth)
  have l2: "2 \<le> length (curve ! i)" using wf i(2) by (rule two_fields_nth)
  have "distances curve ! (i - 1) < distances curve ! i"
    using s i by (intro sorted_wrt_nth_less) (auto simp: distances_def)
  then have lt: "curve ! (i - 1) ! 0 < curve ! i ! 0" using i by (simp add: distances_def)
  have g1: "py_get curve (int i - 1) = Inr (curve ! (i - 1))"
    using i by (simp add: py_get_def nat_diff_distrib')
  have g2: "py_get curve (int i) = Inr (curve ! i)" using i by (simp add: py_get_def)
  have li: "linear_interp (curve ! i ! 0) (curve ! (i - 1) ! 0) (curve ! (i - 1) ! 1)
      (curve ! i ! 0) (curve ! i ! 1) = Inr (curve ! i ! 1)"
    using lt by (simp add: linear_interp_def py_div_def)
  have ci: "0 < int i" "True" using i by simp_all
  have r: "delta_telemetry (curve ! i ! 0) live_data curve True 0 = Inr (live_data - curve ! i ! 1)"
    unfolding delta_telemetry_eval [OF b ci g1 g2 l1 l2] li by simp
  have d: "delta_telemetry_double (curve ! i ! 0) live_data curve True 0 =
         Inr (fl (fl (live_data + 0) - interp_fuel_double curve i (curve ! i ! 0)))"
    unfolding delta_telemetry_double_eval [OF b ci g1 g2 l1 l2] linear_interp_double_knot
    by (simp add: interp_fuel_double_def Let_def)
  from b r d show ?thesis by blast
qed

theorem delta_telemetry_knot_witness:
  "two_fields [[0, 0], [50, 2], [100, 5, 60]] \<and> sorted_wrt (<) (distances [[0, 0], [50, 2], [100, 5, 60]])
   \<and> binary_search_hi (map Row [[0, 0], [50, 2], [100, 5, 60]]) 50 0 2 (Some 0) = Inr 1
   \<and> delta_telemetry 50 3 [[0, 0], [50, 2], [100, 5, 60]] True 0 = Inr 1
   \<and> delta_telemetry_double 50 3 [[0, 0], [50, 2], [100, 5, 60]] True 0
       = Inr (fl (fl (3 + 0) - interp_fuel_double [[0, 0], [50, 2], [100, 5, 60]] 1 50))"
proof -
  have a: "two_fields [[0, 0], [50, 2], [100, 5, 60]]" by (simp add: two_fields_def)
  have b: "sorted_wrt (<) (distances [[0, 0], [50, 2], [100, 5, 60]])" by (simp add: distances_def)
  have c: "0 < (1::nat)" "1 < length [[0, 0], [50, 2], [100, 5, 60::real]]" by simp_all
  from delta_telemetry_knot [OF a b c, of 3] a b show ?thesis by simp
qed

text \<open>
  The claim as written fails on doubles: at the knot (0.7, 0.9) after the knot
  (0.1, 0.3), with a live usage of 0, the code returns -0.9000000000000001 and not
  -0.9.
\<close>

theorem delta_telemetry_knot_counterexample:
  "two_fields knots_curve \<and> sorted_wrt (<) (distances knots_curve)
   \<and> knots_curve ! 2 = [d07, d09]
   \<and> delta_telemetry_double d07 0 knots_curve True 0
       = Inr (- (4053239664633447 / 4503599627370496))
   \<and> - (4053239664633447 / 4503599627370496) \<noteq> 0 - d09"
proof -
  have a: "two_fields knots_curve" by (simp add: two_fields_def knots_curve_def)
  have b: "sorted_wrt (<) (distances knots_curve)"
    by (simp add: distances_def knots_curve_def d01_def d07_def)
  have c: "knots_curve ! 2 = [d07, d09]" by (simp add: knots_curve_def)
  have s: "binary_search_hi (map Row knots_curve) d07 0 (int (length knots_curve) - 1) (Some 0) = Inr 2"
    using knot_search by (simp add: knots_curve_def)
  have g: "py_get knots_curve (2 - 1) = Inr [d01, d03]" "py_get knots_curve 2 = Inr [d07, d09]"
    by (simp_all add: py_get_def knots_curve_def)
  have n: "fl (fl (0 + 0) - 4053239664633447 / 4503599627370496)
      = - (4053239664633447 / 4503599627370496)"
    by (simp add: fl_zero) (simp add: fl_eval)
  have "delta_telemetry_double d07 0 knots_curve True 0
       = Inr (- (4053239664633447 / 4503599627370496))"
    using delta_telemetry_double_eval [OF s _ _ g, of True 0 0] knot_interp_double n by simp
  moreover have "- (4053239664633447 / 4503599627370496) \<noteq> 0 - d09" by (simp add: d09_def)
  ultimately show ?thesis using a b c by blast
qed

text \<open>
  Claim C1. For every curve whose rows hold a distance and a fuel value, every
  position, live usage, condition and offset: the search over the whole curve returns
  an index \<open>idx\<close>; if \<open>idx > 0\<close> and the condition holds, \<open>delta_telemetry\<close> returns
  the live usage plus the offset minus the linear interpolation of fuel against
  distance between the samples \<open>idx - 1\<close> and \<open>idx\<close> at the position, and otherwise
  it returns 0. Nothing is raised. (The witness below is the scenario of the spec:
  curve \<open>[(0,0,0), (100,5.0,60.0)]\<close>, position 50, live usage 2.5, result 0.)
\<close>

theorem delta_telemetry_result:
  assumes wf: "two_fields curve"
  shows "(\<exists>idx. binary_search_hi (map Row curve) position 0 (int (length curve) - 1) (Some 0) = Inr idx
      \<and> - 1 \<le> idx \<and> idx < max 1 (int (length curve))
      \<and> delta_telemetry position live_data curve condition offset =
          Inr (if 0 < idx \<and> condition
               then live_data + offset - interp_fuel curve (nat idx) position else 0))
    \<and> delta_telemetry 50 (5 / 2) [[0, 0, 0], [100, 5, 60]] True 0 = Inr 0"
proof
  show "delta_telemetry 50 (5 / 2) [[0, 0, 0], [100, 5, 60]] True 0 = Inr 0"
    by (simp add: delta_telemetry_def binary_search_hi.simps py_get_def linear_interp_def
        py_div_def)
next
  show "\<exists>idx. binary_search_hi (map Row curve) position 0 (int (length curve) - 1) (Some 0) = Inr idx
      \<and> - 1 \<le> idx \<and> idx < max 1 (int (length curve))
      \<and> delta_telemetry position live_data curve condition offset =
          Inr (if 0 < idx \<and> condition
               then live_data + offset - interp_fuel curve (nat idx) position else 0)"
  proof (cases "curve = []")
    case True
    then show ?thesis by (simp add: bs_done delta_telemetry_def)
  next
    case False
    have k: "keyed (map Row curve) (Some 0) (distances curve)" using wf by (rule keyed_rows)
    from False have rg: "(0::int) \<le> 0" "0 \<le> int (length (map Row curve)) - 1"
      "int (length (map Row curve)) - 1 < int (length (map Row curve))"
      by (simp_all add: Suc_le_eq)
    from bs_range [OF k rg, of position] obtain idx where
      b: "binary_search_hi (map Row curve) position 0 (int (length curve) - 1) (Some 0) = Inr idx"
      and r: "0 \<le> idx" "idx \<le> int (length curve) - 1" by auto
    have d: "delta_telemetry position live_data curve condition offset =
          Inr (if 0 < idx \<and> condition
               then live_data + offset - interp_fuel curve (nat idx) position else 0)"
    proof (cases "0 < idx \<and> condition")
      case no: False
      then show ?thesis by (auto simp: delta_telemetry_def b)
    next
      case yes: True
      then have i: "nat idx - 1 < length curve" "nat idx < length curve" using r by linarith+
      have l1: "2 \<le> length (curve ! (nat idx - 1))" using wf i(1) by (rule two_fields_nth)
      have l2: "2 \<le> length (curve ! nat idx)" using wf i(2) by (rule two_fields_nth)
      have g1: "py_get curve (idx - 1) = Inr (curve ! (nat idx - 1))"
        using yes r by (simp add: py_get_def nat_diff_distrib')
      have g2: "py_get curve idx = Inr (curve ! nat idx)" using yes r by (simp add: py_get_def)
      from yes have ci: "0 < idx" "condition" by simp_all
      show ?thesis
        unfolding delta_telemetry_eval [OF b ci g1 g2 l1 l2]
        using yes by (simp add: linear_interp_def py_div_def interp_fuel_def Let_def)
    qed
    from b r d show ?thesis by auto
  qed
qed

theorem delta_telemetry_result_witness:
  "two_fields [[0, 0, 0], [100, 5, 60]]
   \<and> binary_search_hi (map Row [[0, 0, 0], [100, 5, 60]]) 50 0 1 (Some 0) = Inr 1
   \<and> interp_fuel [[0, 0, 0], [100, 5, 60]] 1 50 = 5 / 2
   \<and> delta_telemetry 50 (5 / 2) [[0, 0, 0], [100, 5, 60]] True 0 = Inr 0"
proof -
  have a: "two_fields [[0, 0, 0], [100, 5, 60]]" by (simp add: two_fields_def)
  have b: "binary_search_hi (map Row [[0, 0, 0], [100, 5, 60]]) 50 0 1 (Some 0) = Inr 1"
    by (simp add: binary_search_hi.simps py_get_def)
  have c: "interp_fuel [[0, 0, 0], [100, 5, 60]] 1 50 = 5 / 2" by (simp add: interp_fuel_def)
  from delta_telemetry_result [OF a, of 50 "5 / 2" True 0] a b c show ?thesis by simp
qed

section \<open>The curves of the engine\<close>

lemma py_round_bounds: "\<lfloor>y\<rfloor> \<le> py_round y \<and> py_round y \<le> \<lfloor>y\<rfloor> + 1"
  by (simp add: py_round_def Let_def)

lemma py_round_mono:
  assumes "x \<le> y"
  shows "py_round x \<le> py_round y"
proof (cases "\<lfloor>x\<rfloor> = \<lfloor>y\<rfloor>")
  case True
  with assms have "x - of_int \<lfloor>x\<rfloor> \<le> y - of_int \<lfloor>y\<rfloor>" by simp
  with True show ?thesis
    by (auto simp: py_round_def Let_def)
next
  case False
  from assms have "\<lfloor>x\<rfloor> \<le> \<lfloor>y\<rfloor>" by (rule floor_mono)
  with False have "\<lfloor>x\<rfloor> + 1 \<le> \<lfloor>y\<rfloor>" by linarith
  with py_round_bounds [of x] py_round_bounds [of y] show ?thesis by linarith
qed

lemma round6_mono: "x \<le> y \<Longrightarrow> round6 x \<le> round6 y"
proof -
  assume "x \<le> y"
  then have "x * 1000000 \<le> y * 1000000" by simp
  then have "py_round (x * 1000000) \<le> py_round (y * 1000000)" by (rule py_round_mono)
  then show ?thesis by (simp add: round6_def divide_right_mono)
qed

lemma round6_zero: "round6 0 = 0"
  by (simp add: round6_def py_round_def)

lemma round6_nonneg: "0 \<le> x \<Longrightarrow> 0 \<le> round6 x"
  using round6_mono [of 0 x] by (simp add: round6_zero)

lemma sorted_curve_zero: "sorted_curve [DELTA_ZERO]"
  by (simp add: sorted_curve_def DELTA_ZERO_def distances_def)

lemma distances_append: "distances (xs @ ys) = distances xs @ distances ys"
  by (simp add: distances_def)

lemma distances_Cons: "distances (row # xs) = row ! 0 # distances xs"
  by (simp add: distances_def)

lemma curve_inv_alt:
  "curve_inv s = (recorded_ok (delta_list_curr s) (round6 (pos_last s))
      \<and> sorted_curve (delta_list_temp s) \<and> sorted_curve (delta_list_last s))"
  by (simp add: curve_inv_def recorded_ok_def)

lemma recorded_ok_zero: "recorded_ok [DELTA_ZERO] b"
  by (simp add: recorded_ok_def distances_def)

lemma recorded_ok_weaken: "recorded_ok curve b \<Longrightarrow> b \<le> c \<Longrightarrow> recorded_ok curve c"
  by (auto simp: recorded_ok_def list_all_iff split: list.splits)

lemma recorded_ok_only_zero: "recorded_ok curve b \<Longrightarrow> tl curve = [] \<Longrightarrow> recorded_ok curve c"
  by (auto simp: recorded_ok_def split: list.splits)

lemma recorded_ok_append:
  assumes "recorded_ok curve b" and "0 \<le> d" and "b \<le> d"
  shows "recorded_ok (curve @ (d # fs) # []) d"
proof -
  from assms(1) obtain rest where c: "curve = DELTA_ZERO # rest"
    and r: "list_all (\<lambda>row. row \<noteq> [] \<and> 0 \<le> row ! 0 \<and> row ! 0 \<le> b) rest"
    and s: "sorted (distances rest)"
    by (auto simp: recorded_ok_def split: list.splits)
  from r assms(3) have r': "list_all (\<lambda>row. row \<noteq> [] \<and> 0 \<le> row ! 0 \<and> row ! 0 \<le> d) rest"
    by (auto simp: list_all_iff)
  from r assms(3) have le: "\<forall>x\<in>set (distances rest). x \<le> d"
    by (auto simp: list_all_iff distances_def)
  from s le have "sorted (distances (rest @ [d # fs]))"
    by (simp add: distances_append distances_Cons sorted_append) (simp add: distances_def)
  with r' assms(2) show ?thesis
    by (simp add: c recorded_ok_def)
qed

lemma recorded_ok_sorted:
  assumes "recorded_ok curve b"
  shows "sorted_curve curve"
proof -
  from assms obtain rest where c: "curve = DELTA_ZERO # rest"
    and r: "list_all (\<lambda>row. row \<noteq> [] \<and> 0 \<le> row ! 0 \<and> row ! 0 \<le> b) rest"
    and s: "sorted (distances rest)"
    by (auto simp: recorded_ok_def split: list.splits)
  from r have "\<forall>x\<in>set (distances rest). 0 \<le> x" by (auto simp: list_all_iff distances_def)
  with s r show ?thesis
    by (auto simp: c sorted_curve_def distances_Cons DELTA_ZERO_def list_all_iff)
qed

lemma recorded_ok_bound:
  assumes "recorded_ok curve b" and "1 < length curve"
  shows "0 \<le> b"
proof -
  from assms obtain row rest where "curve = DELTA_ZERO # row # rest"
    and "0 \<le> row ! 0 \<and> row ! 0 \<le> b"
    by (cases curve; cases "tl curve") (auto simp: recorded_ok_def)
  then show ?thesis by linarith
qed

lemma staged_sorted:
  assumes "recorded_ok curve (round6 p)" and "1 < length curve"
  shows "sorted_curve (curve @ [[round6 (p + 10), u, l]])"
proof -
  have le: "round6 p \<le> round6 (p + 10)" by (rule round6_mono) simp
  from recorded_ok_bound [OF assms] le have "0 \<le> round6 (p + 10)" by linarith
  from recorded_ok_append [OF assms(1) this le] show ?thesis by (rule recorded_ok_sorted)
qed

lemma curve_inv_tick:
  assumes inv: "curve_inv s" and reg: "regular_tick s t"
  shows "curve_inv (track_tick s t)"
proof -
  define lc where "lc = max (timing_current_laptime t) 0"
  define s2 where "s2 = fuel_usage (s\<lparr>pit_lap := (pit_lap s \<or> vehicle_in_pits t)\<rparr>) (vehicle_fuel t)"
  define s3 where "s3 = lap_detect s2 (timing_start t) lc (lap_distance t)"
  define s4 where "s4 = fst (distance_check s3 lc (lap_distance t))"
  define p where "p = snd (distance_check s3 lc (lap_distance t))"
  define s5 where "s5 = record_sample s4 p"
  have tick: "track_tick s t = validate_lap s5 lc (timing_last_laptime t)"
    by (simp add: track_tick_def Let_def s5_def s4_def p_def s3_def s2_def lc_def split_beta)
  have guard: "(0 < lc \<and> lc < 1) = (0 < timing_current_laptime t \<and> timing_current_laptime t < 1)"
    by (auto simp: lc_def)
  from inv have c: "recorded_ok (delta_list_curr s) (round6 (pos_last s))"
    and tmp: "sorted_curve (delta_list_temp s)" and lst: "sorted_curve (delta_list_last s)"
    by (simp_all add: curve_inv_alt)
  have s2_same: "delta_list_curr s2 = delta_list_curr s" "delta_list_temp s2 = delta_list_temp s"
    "delta_list_last s2 = delta_list_last s" "pos_last s2 = pos_last s"
    "last_lap_stime s2 = last_lap_stime s"
    by (simp_all add: s2_def fuel_usage_def)
  have s3_last: "delta_list_last s3 = delta_list_last s"
    by (simp add: s3_def lap_detect_def stage_lap_def s2_same)
  have s3_tmp: "sorted_curve (delta_list_temp s3)"
    using tmp staged_sorted [OF c]
    by (simp add: s3_def lap_detect_def stage_lap_def s2_same)
  have s4_same: "delta_list_curr s4 = delta_list_curr s3" "delta_list_temp s4 = delta_list_temp s3"
    "delta_list_last s4 = delta_list_last s3"
    by (simp_all add: s4_def distance_check_def)
  have s5_same: "delta_list_temp s5 = delta_list_temp s4" "delta_list_last s5 = delta_list_last s4"
    by (simp_all add: s5_def record_sample_def)
  have pre: "recorded_ok (delta_list_curr s4) (round6 (pos_last s4))
      \<and> (p < 0 \<or> pos_last s4 \<le> p)"
  proof (cases "new_lap s t")
    case True
    then have "delta_list_curr s3 = [DELTA_ZERO]" "pos_last s3 = lap_distance t"
      by (simp_all add: s3_def lap_detect_def new_lap_def s2_same)
    then show ?thesis
      by (auto simp: s4_def p_def distance_check_def recorded_ok_zero)
  next
    case False
    then have same: "delta_list_curr s3 = delta_list_curr s" "pos_last s3 = pos_last s"
      by (auto simp: s3_def lap_detect_def new_lap_def s2_same)
    show ?thesis
    proof (cases "0 < lc \<and> lc < 1 \<and> 300 < lap_distance t")
      case fire: True
      with guard have "0 < timing_current_laptime t \<and> timing_current_laptime t < 1
          \<and> 300 < lap_distance t" by blast
      with reg False have "tl (delta_list_curr s) = []" by (simp add: regular_tick_def)
      with c have "recorded_ok (delta_list_curr s) (round6 0)" by (rule recorded_ok_only_zero)
      with fire show ?thesis
        by (simp add: s4_def p_def distance_check_def same)
    next
      case quiet: False
      with guard have "\<not> (0 < timing_current_laptime t \<and> timing_current_laptime t < 1
          \<and> 300 < lap_distance t)" by blast
      with reg False have "lap_distance t < 0 \<or> pos_last s \<le> lap_distance t"
        by (simp add: regular_tick_def)
      with quiet c show ?thesis
        by (auto simp: s4_def p_def distance_check_def same)
    qed
  qed
  have s5_curr: "recorded_ok (delta_list_curr s5) (round6 (pos_last s5))"
  proof (cases "0 \<le> p \<and> p \<noteq> pos_last s4")
    case False
    with pre show ?thesis by (auto simp: s5_def record_sample_def)
  next
    case True
    with pre have le: "pos_last s4 \<le> p" by auto
    then have rl: "round6 (pos_last s4) \<le> round6 p" by (rule round6_mono)
    from True have nn: "0 \<le> round6 p" by (simp add: round6_nonneg)
    show ?thesis
    proof (cases "recording s4 \<and> pos_last s4 < p")
      case app: True
      from pre have "recorded_ok (delta_list_curr s4) (round6 (pos_last s4))" by simp
      from recorded_ok_append [OF this nn rl] True app show ?thesis
        by (simp add: s5_def record_sample_def)
    next
      case noapp: False
      from pre rl have "recorded_ok (delta_list_curr s4) (round6 p)"
        by (auto intro: recorded_ok_weaken)
      with True noapp show ?thesis by (auto simp: s5_def record_sample_def)
    qed
  qed
  have s5: "curve_inv s5"
    using s5_curr s3_tmp lst by (simp add: curve_inv_alt s5_same s4_same s3_last)
  then show ?thesis
    unfolding tick
    by (auto simp: curve_inv_alt validate_lap_def sorted_curve_zero)
qed

text \<open>The delta computation does not touch the curves or the last checked position.\<close>

lemma delta_step_same:
  assumes "delta_step s t = Inr s'"
  shows "delta_list_curr s' = delta_list_curr s" "delta_list_temp s' = delta_list_temp s"
    "delta_list_last s' = delta_list_last s" "pos_last s' = pos_last s"
  using assms by (auto simp: delta_step_def Let_def split: if_splits sum.splits)

lemma curve_inv_engine_tick:
  assumes "curve_inv s" and "regular_tick s t" and "engine_tick s t = Inr s'"
  shows "curve_inv s'"
proof -
  from assms(1,2) have "curve_inv (track_tick s t)" by (rule curve_inv_tick)
  with delta_step_same [OF assms(3) [unfolded engine_tick_def]] show ?thesis
    by (simp add: curve_inv_alt)
qed

lemma curve_inv_run:
  "curve_inv s \<Longrightarrow> regular_run s ts \<Longrightarrow> run_ticks s ts = Inr s' \<Longrightarrow> curve_inv s'"
proof (induction ts arbitrary: s)
  case Nil
  then show ?case by simp
next
  case (Cons t ts)
  from Cons.prems(3) obtain s1 where t: "engine_tick s t = Inr s1" and r: "run_ticks s1 ts = Inr s'"
    by (auto split: sum.splits)
  from Cons.prems(2) t have reg: "regular_tick s t" "regular_run s1 ts" by simp_all
  from Cons.prems(1) reg(1) t have "curve_inv s1" by (rule curve_inv_engine_tick)
  from this reg(2) r show ?case by (rule Cons.IH)
qed

lemma fuel_usage_curr: "delta_list_curr (fuel_usage s a) = delta_list_curr s"
  by (simp add: fuel_usage_def)

lemma lap_detect_curr:
  "delta_list_curr (lap_detect s st lc p) = [DELTA_ZERO]
   \<or> delta_list_curr (lap_detect s st lc p) = delta_list_curr s"
  by (simp add: lap_detect_def)

lemma distance_check_curr: "delta_list_curr (fst (distance_check s lc p)) = delta_list_curr s"
  by (simp add: distance_check_def)

lemma record_sample_curr:
  "delta_list_curr (record_sample s p) = delta_list_curr s
   \<or> (\<exists>row. delta_list_curr (record_sample s p) = delta_list_curr s @ [row])"
  by (simp add: record_sample_def)

lemma validate_lap_curr: "delta_list_curr (validate_lap s lc lv) = delta_list_curr s"
  by (simp add: validate_lap_def)

lemma sentinel_tick:
  assumes "hd (delta_list_curr s) = DELTA_ZERO \<and> delta_list_curr s \<noteq> []"
  shows "hd (delta_list_curr (track_tick s t)) = DELTA_ZERO \<and> delta_list_curr (track_tick s t) \<noteq> []"
proof -
  define lc where "lc = max (timing_current_laptime t) 0"
  define s2 where "s2 = fuel_usage (s\<lparr>pit_lap := (pit_lap s \<or> vehicle_in_pits t)\<rparr>) (vehicle_fuel t)"
  define s3 where "s3 = lap_detect s2 (timing_start t) lc (lap_distance t)"
  define s4 where "s4 = fst (distance_check s3 lc (lap_distance t))"
  define p where "p = snd (distance_check s3 lc (lap_distance t))"
  define s5 where "s5 = record_sample s4 p"
  have tick: "track_tick s t = validate_lap s5 lc (timing_last_laptime t)"
    by (simp add: track_tick_def Let_def s5_def s4_def p_def s3_def s2_def lc_def split_beta)
  have "delta_list_curr s2 = delta_list_curr s" by (simp add: s2_def fuel_usage_curr)
  with assms lap_detect_curr [of s2 "timing_start t" lc "lap_distance t"]
  have "hd (delta_list_curr s3) = DELTA_ZERO \<and> delta_list_curr s3 \<noteq> []"
    by (auto simp: s3_def)
  then have "hd (delta_list_curr s4) = DELTA_ZERO \<and> delta_list_curr s4 \<noteq> []"
    by (simp add: s4_def distance_check_curr)
  with record_sample_curr [of s4 p]
  have "hd (delta_list_curr s5) = DELTA_ZERO \<and> delta_list_curr s5 \<noteq> []"
    by (auto simp: s5_def)
  then show ?thesis by (simp add: tick validate_lap_curr)
qed

lemma sentinel_run:
  "hd (delta_list_curr s) = DELTA_ZERO \<and> delta_list_curr s \<noteq> [] \<Longrightarrow> run_ticks s ts = Inr s' \<Longrightarrow>
   hd (delta_list_curr s') = DELTA_ZERO \<and> delta_list_curr s' \<noteq> []"
proof (induction ts arbitrary: s)
  case Nil
  then show ?case by simp
next
  case (Cons t ts)
  from Cons.prems(2) obtain s1 where t: "engine_tick s t = Inr s1" and r: "run_ticks s1 ts = Inr s'"
    by (auto split: sum.splits)
  from Cons.prems(1) have "hd (delta_list_curr (track_tick s t)) = DELTA_ZERO
      \<and> delta_list_curr (track_tick s t) \<noteq> []" by (rule sentinel_tick)
  with delta_step_same(1) [OF t [unfolded engine_tick_def]]
  have "hd (delta_list_curr s1) = DELTA_ZERO \<and> delta_list_curr s1 \<noteq> []" by simp
  from this r show ?case by (rule Cons.IH)
qed

text \<open>The two runs, tick by tick.\<close>

lemma distance_x: "distance [a, 0, 0] [b, 0, 0] = Inr \<bar>a - b\<bar>"
  by (simp add: distance_def)

lemma delta_default: "delta_telemetry p u [[99999, 0, 0]] c 0 = Inr 0"
  by (simp add: delta_telemetry_def binary_search_hi.simps)

lemmas state_defs = first_session_def reset_engine_def on_track_def lap_begun_def sample_100_def
  rolled_back_def sample_60_def lap_staged_def staged_6s_def

lemmas tick_defs = engine_tick_def delta_step_def delta_default distance_x track_tick_def
  reading_def fuel_usage_def lap_detect_def stage_lap_def distance_check_def record_sample_def
  validate_lap_def DELTA_ZERO_def round6_def py_round_def Let_def

lemma tick_on_track: "engine_tick first_session (reading 10 5 0 50 900) = Inr on_track"
  by (simp add: state_defs tick_defs)

lemma tick_lap_begun: "engine_tick on_track (reading 100 (1 / 100) 0 50 0) = Inr lap_begun"
  by (simp add: state_defs tick_defs)

lemma tick_sample_100: "engine_tick lap_begun (reading 100 (1 / 2) 90 49 100) = Inr sample_100"
  by (simp add: state_defs tick_defs)

lemma tick_rolled_back: "engine_tick sample_100 (reading 100 1 90 (97 / 2) 50) = Inr rolled_back"
  by (simp add: state_defs tick_defs)

lemma tick_sample_60: "engine_tick rolled_back (reading 100 2 90 48 60) = Inr sample_60"
  by (simp add: state_defs tick_defs)

lemma tick_lap_staged: "engine_tick sample_100 (reading 200 (1 / 10) 0 48 0) = Inr lap_staged"
  by (simp add: state_defs tick_defs)

lemma tick_staged_6s: "engine_tick lap_staged (reading 200 6 0 48 100) = Inr staged_6s"
  by (simp add: state_defs tick_defs)

lemmas run_ticks_steps = tick_on_track tick_lap_begun tick_sample_100 tick_rolled_back
  tick_sample_60 tick_lap_staged tick_staged_6s

lemma run_sample_100:
  "run_ticks first_session
     [reading 10 5 0 50 900, reading 100 (1 / 100) 0 50 0, reading 100 (1 / 2) 90 49 100]
   = Inr sample_100"
  by (simp add: run_ticks_steps)

lemma run_sample_60:
  "run_ticks first_session
     [reading 10 5 0 50 900, reading 100 (1 / 100) 0 50 0, reading 100 (1 / 2) 90 49 100,
      reading 100 1 90 (97 / 2) 50, reading 100 2 90 48 60]
   = Inr sample_60"
  by (simp add: run_ticks_steps)

lemma run_lap_staged:
  "run_ticks first_session
     [reading 10 5 0 50 900, reading 100 (1 / 100) 0 50 0, reading 100 (1 / 2) 90 49 100,
      reading 200 (1 / 10) 0 48 0]
   = Inr lap_staged"
  by (simp add: run_ticks_steps)

lemma run_staged_6s:
  "run_ticks first_session
     [reading 10 5 0 50 900, reading 100 (1 / 100) 0 50 0, reading 100 (1 / 2) 90 49 100,
      reading 200 (1 / 10) 0 48 0, reading 200 6 0 48 100]
   = Inr staged_6s"
  by (simp add: run_ticks_steps)

lemma regular_sample_100:
  "regular_run first_session
     [reading 10 5 0 50 900, reading 100 (1 / 100) 0 50 0, reading 100 (1 / 2) 90 49 100]"
  by (simp add: run_ticks_steps) (simp add: regular_tick_def new_lap_def state_defs reading_def)

text \<open>
  Claim C4 (as amended). The curve being recorded always starts with the two-field
  sentinel \<open>(0.0, 0.0)\<close>. A sample is appended only while recording, when the new
  distance is not negative and strictly greater than the last checked position
  \<open>pos_last\<close>; the sample that ends a lap has the distance \<open>round(pos_last + 10, 6)\<close>.
  If the loaded curve is sorted, no tick has raised and every tick since the reset
  has been regular (a new lap starts on it, or the 300 m check fires with nothing
  but the sentinel recorded, or the check does not fire and the lap distance is
  negative or not below \<open>pos_last\<close>), then the curve being recorded, the staged
  curve and the committed curve are sorted by non-decreasing distance.
\<close>

theorem curve_sorted_on_regular_runs:
  assumes "sorted_curve lastlist"
    and "regular_run (reset_engine (lastlist, used, laptime)) ts"
    and "run_ticks (reset_engine (lastlist, used, laptime)) ts = Inr s"
  shows "sorted_curve (delta_list_curr s)
     \<and> sorted_curve (delta_list_temp s)
     \<and> sorted_curve (delta_list_last s)
     \<and> (run_ticks (reset_engine loaded) ticks = Inr s' \<longrightarrow> hd (delta_list_curr s') = [0, 0])
     \<and> delta_list_curr (record_sample e pos) =
         (if recording e \<and> 0 \<le> pos \<and> pos_last e < pos
          then delta_list_curr e @ [[round6 pos, round6 (used_curr e)]]
          else delta_list_curr e)
     \<and> delta_list_temp (stage_lap e lap_stime) =
         (if 1 < length (delta_list_curr e) \<and> \<not> pit_lap e
          then delta_list_curr e @
                 [[round6 (pos_last e + 10), round6 (used_curr e),
                   round6 (lap_stime - last_lap_stime e)]]
          else delta_list_temp e)"
proof -
  from assms(1) have "curve_inv (reset_engine (lastlist, used, laptime))"
    by (simp add: curve_inv_alt reset_engine_def recorded_ok_zero sorted_curve_zero)
  from this assms(2,3) have i: "curve_inv s" by (rule curve_inv_run)
  then have r: "recorded_ok (delta_list_curr s) (round6 (pos_last s))"
    and tmp: "sorted_curve (delta_list_temp s)" and lst: "sorted_curve (delta_list_last s)"
    by (simp_all add: curve_inv_alt)
  from r have c: "sorted_curve (delta_list_curr s)" by (rule recorded_ok_sorted)
  have h: "run_ticks (reset_engine loaded) ticks = Inr s' \<longrightarrow> hd (delta_list_curr s') = [0, 0]"
  proof
    assume run: "run_ticks (reset_engine loaded) ticks = Inr s'"
    have "hd (delta_list_curr (reset_engine loaded)) = DELTA_ZERO
        \<and> delta_list_curr (reset_engine loaded) \<noteq> []"
      by (cases loaded) (simp add: reset_engine_def)
    from sentinel_run [OF this run] show "hd (delta_list_curr s') = [0, 0]"
      by (simp add: DELTA_ZERO_def)
  qed
  have rs: "delta_list_curr (record_sample e pos) =
         (if recording e \<and> 0 \<le> pos \<and> pos_last e < pos
          then delta_list_curr e @ [[round6 pos, round6 (used_curr e)]]
          else delta_list_curr e)"
    by (auto simp: record_sample_def)
  have st: "delta_list_temp (stage_lap e lap_stime) =
         (if 1 < length (delta_list_curr e) \<and> \<not> pit_lap e
          then delta_list_curr e @
                 [[round6 (pos_last e + 10), round6 (used_curr e),
                   round6 (lap_stime - last_lap_stime e)]]
          else delta_list_temp e)"
    by (simp add: stage_lap_def)
  from c tmp lst h rs st show ?thesis by blast
qed

theorem curve_sorted_on_regular_runs_witness:
  "sorted_curve [[99999, 0, 0]]
   \<and> regular_run (reset_engine ([[99999, 0, 0]], 0, 0))
        [reading 10 5 0 50 900, reading 100 (1 / 100) 0 50 0, reading 100 (1 / 2) 90 49 100]
   \<and> run_ticks (reset_engine ([[99999, 0, 0]], 0, 0))
        [reading 10 5 0 50 900, reading 100 (1 / 100) 0 50 0, reading 100 (1 / 2) 90 49 100]
       = Inr sample_100
   \<and> delta_list_curr sample_100 = [[0, 0], [100, 1]]
   \<and> sorted_curve (delta_list_curr sample_100)
   \<and> run_ticks (reset_engine ([[99999, 0, 0]], 0, 0))
        [reading 10 5 0 50 900, reading 100 (1 / 100) 0 50 0, reading 100 (1 / 2) 90 49 100,
         reading 100 1 90 (97 / 2) 50, reading 100 2 90 48 60]
       = Inr sample_60
   \<and> hd (delta_list_curr sample_60) = [0, 0]"
proof -
  have a: "sorted_curve [[99999, 0, 0]]" by (simp add: sorted_curve_def distances_def)
  have b: "regular_run (reset_engine ([[99999, 0, 0]], 0, 0))
        [reading 10 5 0 50 900, reading 100 (1 / 100) 0 50 0, reading 100 (1 / 2) 90 49 100]"
    using regular_sample_100 by (simp add: first_session_def)
  have c: "run_ticks (reset_engine ([[99999, 0, 0]], 0, 0))
        [reading 10 5 0 50 900, reading 100 (1 / 100) 0 50 0, reading 100 (1 / 2) 90 49 100]
       = Inr sample_100"
    using run_sample_100 by (simp add: first_session_def)
  have d: "run_ticks (reset_engine ([[99999, 0, 0]], 0, 0))
        [reading 10 5 0 50 900, reading 100 (1 / 100) 0 50 0, reading 100 (1 / 2) 90 49 100,
         reading 100 1 90 (97 / 2) 50, reading 100 2 90 48 60]
       = Inr sample_60"
    using run_sample_60 by (simp add: first_session_def)
  have e: "delta_list_curr sample_100 = [[0, 0], [100, 1]]"
    by (simp add: state_defs DELTA_ZERO_def)
  note w = curve_sorted_on_regular_runs [OF a b c, where loaded = "([[99999, 0, 0]], 0, 0)"
      and ticks = "[reading 10 5 0 50 900, reading 100 (1 / 100) 0 50 0,
         reading 100 (1 / 2) 90 49 100, reading 100 1 90 (97 / 2) 50, reading 100 2 90 48 60]"
      and s' = sample_60]
  from w have f: "sorted_curve (delta_list_curr sample_100)" by blast
  from w d have g: "hd (delta_list_curr sample_60) = [0, 0]" by blast
  from a b c e f d g show ?thesis by blast
qed

text \<open>
  The claim as written fails. The sentinel has two fields, not three; and
  \<open>pos_last\<close> is the last position checked, not the last one recorded: when the
  lap distance falls from 100 to 50 and then rises to 60, the sample at 60 is
  appended after the sample at 100.
\<close>

theorem curve_sorted_counterexample:
  "run_ticks first_session
     [reading 10 5 0 50 900, reading 100 (1 / 100) 0 50 0, reading 100 (1 / 2) 90 49 100,
      reading 100 1 90 (97 / 2) 50, reading 100 2 90 48 60]
     = Inr sample_60
   \<and> delta_list_curr sample_60 = [DELTA_ZERO, [100, 1], [60, 2]]
   \<and> \<not> sorted_curve [DELTA_ZERO, [100, 1], [60, 2]]
   \<and> DELTA_ZERO \<noteq> [0, 0, 0]"
  using run_sample_60
  by (simp add: sorted_curve_def distances_def state_defs DELTA_ZERO_def)

text \<open>
  Claim C2 (as amended). While a lap is staged for validation: if the current lap
  time is in \<open>(0.2, 3]\<close> and the last lap time reading is positive, the staged curve
  becomes the reference curve, the raw usage of the finished lap and the last lap
  time reading become the baseline, the staged curve is reset, the pending state
  ends and the curve is marked for saving. If the current lap time is in \<open>(3, 5)\<close>
  the staged lap is abandoned (the pending state ends, nothing else changes). At 5
  seconds or more, at 0.2 seconds or less, and in the window without a positive last
  lap time, the state is unchanged: the validation stays pending.
\<close>

theorem validate_lap_window:
  assumes "validating s"
  shows "(2 / 10 < laptime_curr \<and> laptime_curr \<le> 3 \<and> 0 < laptime_valid \<longrightarrow>
            validate_lap s laptime_curr laptime_valid =
              s\<lparr>used_last := used_last_raw s, laptime_last := laptime_valid,
                delta_list_last := delta_list_temp s, delta_list_temp := [DELTA_ZERO],
                validating := False, delayed_save := True\<rparr>)
     \<and> (3 < laptime_curr \<and> laptime_curr < 5 \<longrightarrow>
            validate_lap s laptime_curr laptime_valid = s\<lparr>validating := False\<rparr>)
     \<and> (5 \<le> laptime_curr \<or> laptime_curr \<le> 2 / 10 \<or> (laptime_curr \<le> 3 \<and> laptime_valid \<le> 0) \<longrightarrow>
            validate_lap s laptime_curr laptime_valid = s)"
  using assms by (auto simp: validate_lap_def)

theorem validate_lap_window_witness:
  "run_ticks first_session
      [reading 10 5 0 50 900, reading 100 (1 / 100) 0 50 0, reading 100 (1 / 2) 90 49 100,
       reading 200 (1 / 10) 0 48 0] = Inr lap_staged
   \<and> validating lap_staged
   \<and> delta_list_last (validate_lap lap_staged (1 / 2) 100) = [[0, 0], [100, 1], [110, 2, 100]]
   \<and> \<not> validating (validate_lap lap_staged 4 0)
   \<and> validating (validate_lap lap_staged 5 0)"
proof -
  have v: "validating lap_staged" by (simp add: state_defs)
  have t: "delta_list_temp lap_staged = [[0, 0], [100, 1], [110, 2, 100]]"
    by (simp add: state_defs DELTA_ZERO_def)
  from validate_lap_window [OF v, of "1 / 2" 100] t
  have a: "delta_list_last (validate_lap lap_staged (1 / 2) 100) = [[0, 0], [100, 1], [110, 2, 100]]"
    by simp
  from validate_lap_window [OF v, of 4 0]
  have b: "\<not> validating (validate_lap lap_staged 4 0)" by simp
  from validate_lap_window [OF v, of 5 0] v
  have c: "validating (validate_lap lap_staged 5 0)" by simp
  from run_lap_staged v a b c show ?thesis by blast
qed

text \<open>
  The claim as written fails: a lap is staged on crossing the line, and on the next
  tick, 6 seconds into the lap and with no last lap time, the validation is still
  pending.
\<close>

theorem validate_lap_counterexample:
  "run_ticks first_session
      [reading 10 5 0 50 900, reading 100 (1 / 100) 0 50 0, reading 100 (1 / 2) 90 49 100,
       reading 200 (1 / 10) 0 48 0] = Inr lap_staged
   \<and> validating lap_staged
   \<and> (3 :: real) < max 6 0
   \<and> engine_tick lap_staged (reading 200 6 0 48 100) = Inr staged_6s
   \<and> validating staged_6s"
  using run_lap_staged tick_staged_6s by (simp add: state_defs)
section \<open>The curve store\<close>

lemma read_row_written: "read_row (map Number row) = Inr (map PyFloat row)"
  by (induction row) simp_all

lemma csv_reader_written: "csv_reader (csv_writerows rows) = Inr (map (map PyFloat) rows)"
  by (induction rows) (simp_all add: csv_writerows_def read_row_written)

lemma row_numbers_floats: "row_numbers (map PyFloat row) = Inr row"
  by (induction row) simp_all

lemma rows_numbers_floats: "rows_numbers (map (map PyFloat) rows) = Inr rows"
  by (induction rows) (simp_all add: row_numbers_floats)

lemma keep_ascending_sorted:
  "list_all (\<lambda>row. row \<noteq> []) rows \<Longrightarrow> sorted (d # distances rows) \<Longrightarrow>
     keep_ascending d rows = Inr rows"
proof (induction rows arbitrary: d)
  case Nil
  then show ?case by simp
next
  case (Cons row rows)
  from Cons.prems have g: "py_get row 0 = Inr (row ! 0)" by (auto simp: py_get_def)
  from Cons.prems have le: "d \<le> row ! 0" by (simp add: distances_def)
  from Cons.prems have "keep_ascending (row ! 0) rows = Inr rows"
    by (intro Cons.IH) (simp_all add: distances_def)
  with g le show ?case by simp
qed

lemma keep_rows_sorted: "sorted_curve rows \<Longrightarrow> keep_rows rows = Inr rows"
proof (cases rows)
  case Nil
  then show ?thesis by (simp add: keep_rows_def)
next
  case (Cons row rest)
  assume s: "sorted_curve rows"
  with Cons have g: "py_get row 0 = Inr (row ! 0)" by (auto simp: sorted_curve_def py_get_def)
  from s Cons have "keep_ascending (row ! 0) rest = Inr rest"
    by (intro keep_ascending_sorted) (simp_all add: sorted_curve_def distances_def)
  with g Cons show ?thesis by (simp add: keep_rows_def)
qed

lemma delta_list_written:
  "sorted_curve rows \<Longrightarrow> delta_list (map (map PyFloat) rows) = Inr rows"
  by (simp add: delta_list_def rows_numbers_floats keep_rows_sorted)

lemma py_get_errors: "py_get xs i = Inl e \<Longrightarrow> e = IndexError"
  by (auto simp: py_get_def split: if_splits)






lemma keep_ascending_shorter: "keep_ascending d rows = Inr kept \<Longrightarrow> length kept \<le> length rows"
proof (induction rows arbitrary: d kept)
  case Nil
  then show ?case by simp
next
  case (Cons row rows)
  then show ?case by (fastforce split: sum.splits if_splits)
qed

lemma py_get_last: "xs \<noteq> [] \<Longrightarrow> py_get xs (- 1) = Inr (last xs)"
  by (cases xs rule: rev_cases) (auto simp: py_get_def nth_append)

text \<open>The body of the \<^verbatim>\<open>try\<close> once the file is read and validated.\<close>

lemma load_try_validated:
  assumes o: "dir combo = Some (Content csvfile)" and r: "csv_reader csvfile = Inr temp_list"
    and v: "delta_list temp_list = Inr kept"
  shows "load_try dir combo =
     (if kept = [] \<or> length (last kept) < 3 then Inl IndexError
      else if length temp_list \<noteq> length kept
      then (case save_deltafuel dir combo kept of
              Inl e \<Rightarrow> Inl e
            | Inr dir' \<Rightarrow> Inr ((kept, last kept ! 1, last kept ! 2), dir'))
      else Inr ((kept, last kept ! 1, last kept ! 2), dir))"
proof (cases "kept = []")
  case True
  then show ?thesis by (simp add: load_try_def open_read_def o r v py_get_def)
next
  case False
  note g = py_get_last [OF False]
  show ?thesis
  proof (cases "length (last kept) < 3")
    case True
    then have "py_get (last kept) 2 = Inl IndexError" by (auto simp: py_get_def)
    with False True py_get_errors [of "last kept" 1] show ?thesis
      by (auto simp: load_try_def open_read_def o r v g split: sum.splits)
  next
    case long: False
    then have "py_get (last kept) 1 = Inr (last kept ! 1)" "py_get (last kept) 2 = Inr (last kept ! 2)"
      by (auto simp: py_get_def)
    with False long show ?thesis
      by (auto simp: load_try_def open_read_def o r v g split: sum.splits)
  qed
qed



text \<open>
  Claim C5 (as amended). For every combo id whose file can be written and every
  curve of at least 10 samples that is sorted by non-decreasing distance and whose
  last sample has the three fields that \<open>load_deltafuel\<close> reads, saving the curve
  and loading it again returns the same samples, with the fuel and the lap time of
  the last sample, and leaves the written file as it is. Saving a curve of fewer
  than 10 samples changes nothing in the directory.
\<close>

theorem save_load_roundtrip:
  assumes "10 \<le> length curve" and "sorted_curve curve" and "3 \<le> length (last curve)"
    and "dir combo \<noteq> Some Unreadable"
  shows "save_deltafuel dir combo curve = Inr (dir(combo \<mapsto> Content (csv_writerows curve)))
     \<and> load_deltafuel (dir(combo \<mapsto> Content (csv_writerows curve))) combo =
           Inr ((curve, last curve ! 1, last curve ! 2),
                dir(combo \<mapsto> Content (csv_writerows curve)))
     \<and> (length short < 10 \<longrightarrow> save_deltafuel dir combo short = Inr dir)"
proof -
  let ?dir = "dir(combo \<mapsto> Content (csv_writerows curve))"
  from assms(1) have ne: "curve \<noteq> []" by auto
  from assms(1,4) have sv: "save_deltafuel dir combo curve = Inr ?dir"
    by (auto simp: save_deltafuel_def split: option.splits fuel_file.splits)
  have o: "?dir combo = Some (Content (csv_writerows curve))" by simp
  from load_try_validated [where dir = ?dir and combo = combo,
      OF o csv_reader_written delta_list_written [OF assms(2)]] ne assms(3)
  have "load_try ?dir combo = Inr ((curve, last curve ! 1, last curve ! 2), ?dir)"
    by simp
  then have ld: "load_deltafuel ?dir combo = Inr ((curve, last curve ! 1, last curve ! 2), ?dir)"
    by (simp add: load_deltafuel_def)
  have sh: "length short < 10 \<longrightarrow> save_deltafuel dir combo short = Inr dir"
    by (simp add: save_deltafuel_def)
  from sv ld sh show ?thesis by blast
qed

theorem save_load_roundtrip_witness:
  "10 \<le> length ten_samples \<and> sorted_curve ten_samples \<and> 3 \<le> length (last ten_samples)
   \<and> save_deltafuel Map.empty ''Monza-GT3'' ten_samples
       = Inr [''Monza-GT3'' \<mapsto> Content (csv_writerows ten_samples)]
   \<and> load_deltafuel [''Monza-GT3'' \<mapsto> Content (csv_writerows ten_samples)] ''Monza-GT3'' =
       Inr ((ten_samples, 9, 60), [''Monza-GT3'' \<mapsto> Content (csv_writerows ten_samples)])
   \<and> length [[0, 0], [10, 1 :: real]] < 10
   \<and> save_deltafuel [''Monza-GT3'' \<mapsto> Content (csv_writerows ten_samples)] ''Monza-GT3''
         [[0, 0], [10, 1]]
       = Inr [''Monza-GT3'' \<mapsto> Content (csv_writerows ten_samples)]"
proof -
  have a: "10 \<le> length ten_samples" by (simp add: ten_samples_def)
  have b: "sorted_curve ten_samples" by (simp add: ten_samples_def sorted_curve_def distances_def)
  have c: "3 \<le> length (last ten_samples)" by (simp add: ten_samples_def)
  have l: "last ten_samples ! 1 = 9" "last ten_samples ! 2 = 60" by (simp_all add: ten_samples_def)
  have d: "length [[0, 0], [10, 1 :: real]] < 10" by simp
  have e: "(Map.empty :: fuel_dir) ''Monza-GT3'' \<noteq> Some Unreadable" by simp
  have f: "[''Monza-GT3'' \<mapsto> Content (csv_writerows ten_samples)] ''Monza-GT3'' \<noteq> Some Unreadable"
    by simp
  from save_load_roundtrip [where dir = Map.empty and combo = "''Monza-GT3''", OF a b c e] l
  have g: "save_deltafuel Map.empty ''Monza-GT3'' ten_samples
       = Inr [''Monza-GT3'' \<mapsto> Content (csv_writerows ten_samples)]"
    and h: "load_deltafuel [''Monza-GT3'' \<mapsto> Content (csv_writerows ten_samples)] ''Monza-GT3'' =
       Inr ((ten_samples, 9, 60), [''Monza-GT3'' \<mapsto> Content (csv_writerows ten_samples)])"
    by simp_all
  from save_load_roundtrip [where dir = "[''Monza-GT3'' \<mapsto> Content (csv_writerows ten_samples)]"
      and combo = "''Monza-GT3''" and short = "[[0, 0], [10, 1]]", OF a b c f] d
  have i: "save_deltafuel [''Monza-GT3'' \<mapsto> Content (csv_writerows ten_samples)] ''Monza-GT3''
         [[0, 0], [10, 1]]
       = Inr [''Monza-GT3'' \<mapsto> Content (csv_writerows ten_samples)]" by blast
  from a b c g h d i show ?thesis by blast
qed

text \<open>
  The claim as written fails on a curve that is not sorted, which the engine can
  commit and save: the ten samples of a lap on which the car rolled back from 100 m
  to 60 m come back as six, the rows from 60 m to 90 m being dropped by the
  validation. It also fails on ten sorted two-field samples: the last row has no lap
  time, and the load returns the default curve.
\<close>

theorem save_load_roundtrip_counterexample:
  "10 \<le> length rolled_back_lap
   \<and> save_deltafuel Map.empty ''Monza-GT3'' rolled_back_lap
       = Inr [''Monza-GT3'' \<mapsto> Content (csv_writerows rolled_back_lap)]
   \<and> load_deltafuel [''Monza-GT3'' \<mapsto> Content (csv_writerows rolled_back_lap)] ''Monza-GT3''
       = Inr (([[0, 0], [100, 1], [110, 6], [120, 7], [130, 8], [140, 9, 100]], 9, 100),
              [''Monza-GT3'' \<mapsto> Content (csv_writerows rolled_back_lap)])
   \<and> load_deltafuel
         [''Monza-GT3'' \<mapsto> Content (csv_writerows
            [[0, 0], [10, 1], [20, 2], [30, 3], [40, 4], [50, 5], [60, 6], [70, 7], [80, 8],
             [90, 9]])] ''Monza-GT3''
       = Inr (([[99999, 0, 0]], 0, 0),
              [''Monza-GT3'' \<mapsto> Content (csv_writerows
                 [[0, 0], [10, 1], [20, 2], [30, 3], [40, 4], [50, 5], [60, 6], [70, 7], [80, 8],
                  [90, 9]])])"
  by (simp add: rolled_back_lap_def save_deltafuel_def load_deltafuel_def load_try_def
      open_read_def csv_writerows_def delta_list_def keep_rows_def py_get_def)




section \<open>Properties of the numeric utilities\<close>

text \<open>
  Claim C9. For every \<open>x\<close>, \<open>a\<close>, \<open>y1\<close>, \<open>y2\<close>, \<open>linear_interp x a y1 a y2\<close> returns
  \<open>y1\<close>: equal abscissae never reach the division. The function is total: on every
  input it returns a number and raises nothing.
\<close>

theorem linear_interp_degenerate_total:
  "linear_interp x a y1 a y2 = Inr y1 \<and> (\<exists>v. linear_interp x x1 y1 x2 y2 = Inr v)"
  by (simp add: linear_interp_def py_div_def)

text \<open>
  Claim C8 (as amended). \<open>total_fuel_needed\<close> is \<open>laps_remain * consumption - fuel_in_tank\<close>.
  It is non-decreasing in \<open>laps_remain\<close> when the consumption is not negative,
  non-decreasing in \<open>consumption\<close> when the remaining laps are not negative, and
  strictly decreasing in \<open>fuel_in_tank\<close> whatever the other two arguments are.
\<close>

theorem total_fuel_needed_monotone:
  "total_fuel_needed l c f = l * c - f
   \<and> (0 \<le> c \<longrightarrow> l1 \<le> l2 \<longrightarrow> total_fuel_needed l1 c f \<le> total_fuel_needed l2 c f)
   \<and> (0 \<le> l \<longrightarrow> c1 \<le> c2 \<longrightarrow> total_fuel_needed l c1 f \<le> total_fuel_needed l c2 f)
   \<and> (f1 < f2 \<longrightarrow> total_fuel_needed l c f2 < total_fuel_needed l c f1)"
  by (simp add: total_fuel_needed_def mult_right_mono mult_left_mono)

theorem total_fuel_needed_monotone_witness:
  "(0::real) \<le> 3 \<and> (14::real) \<le> 15
   \<and> total_fuel_needed 14 3 30 \<le> total_fuel_needed 15 3 30
   \<and> total_fuel_needed 15 3 30 \<le> total_fuel_needed 15 4 30
   \<and> total_fuel_needed 15 3 31 < total_fuel_needed 15 3 30"
proof -
  have a: "(0::real) \<le> 3" and b: "(14::real) \<le> 15" and c: "(0::real) \<le> 15"
    and d: "(3::real) \<le> 4" and e: "(30::real) < 31"
    by simp_all
  note m = total_fuel_needed_monotone
    [where l = 15 and c = 3 and f = 30 and ?l1.0 = 14 and ?l2.0 = 15
       and ?c1.0 = 3 and ?c2.0 = 4 and ?f1.0 = 30 and ?f2.0 = 31]
  from m a b have "total_fuel_needed 14 3 30 \<le> total_fuel_needed 15 3 30" by blast
  moreover from m c d have "total_fuel_needed 15 3 30 \<le> total_fuel_needed 15 4 30" by blast
  moreover from m e have "total_fuel_needed 15 3 31 < total_fuel_needed 15 3 30" by blast
  ultimately show ?thesis using a b by blast
qed

text \<open>
  The claim as written fails: after the chequered flag of a lap-type race the engine
  computes a negative number of remaining laps (\<open>(20 - 20) - 0.3\<close>), and with a
  negative \<open>laps_remain\<close> a higher consumption gives a lower result.
\<close>

theorem total_fuel_needed_monotone_counterexample:
  "(3::real) \<le> 4 \<and> total_fuel_needed (- 3 / 10) 4 30 < total_fuel_needed (- 3 / 10) 3 30"
  by (simp add: total_fuel_needed_def)

text \<open>
  Claim C10. \<open>end_lap_pit_counts\<close> evaluates \<open>(fuel_needed - fuel_addable) / capacity_total\<close>
  on every path: with \<open>capacity_total = 0\<close> it raises \<^verbatim>\<open>ZeroDivisionError\<close> on every
  input, and with any other \<open>capacity_total\<close> it returns a number, an empty capacity of
  zero counting as one stop. The sibling \<open>end_stint_pit_counts\<close> returns 0 for a
  capacity of 0. The engine calls both with \<open>capacity - amount_left\<close>, so the tick
  raises when the fuel left before the stop equals the capacity (a full 100 l tank
  at the start of a lap with an estimated consumption of 200 l per lap).
\<close>

theorem end_lap_pit_counts_division:
  "end_lap_pit_counts fuel_needed capacity_empty capacity_total =
     (if capacity_total = 0 then Inl ZeroDivisionError
      else Inr ((if capacity_empty = 0 then 1 else min fuel_needed capacity_empty / capacity_empty)
                + (fuel_needed - min fuel_needed capacity_empty) / capacity_total))
   \<and> end_stint_pit_counts fuel_needed 0 = Inr 0
   \<and> (\<exists>left.
         end_stint_fuel fuel_now used_now est = Inr left
         \<and> map_sum id (\<lambda>(al, ee, late, early). early)
             (pit_projection cap fuel_now used_now est base delta need)
           = end_lap_pit_counts need
               (end_lap_empty_capacity cap (fuel_now + used_now) (base + delta))
               (cap - left))
   \<and> pit_projection 100 100 0 200 200 0 need = Inl ZeroDivisionError"
proof -
  have p1: "end_lap_pit_counts fuel_needed capacity_empty capacity_total =
     (if capacity_total = 0 then Inl ZeroDivisionError
      else Inr ((if capacity_empty = 0 then 1 else min fuel_needed capacity_empty / capacity_empty)
                + (fuel_needed - min fuel_needed capacity_empty) / capacity_total))"
    by (simp add: end_lap_pit_counts_def py_div_def Let_def)
  have p2: "end_stint_pit_counts fuel_needed 0 = Inr 0"
    by (simp add: end_stint_pit_counts_def)
  obtain al where al: "end_stint_fuel fuel_now used_now est = Inr al"
    by (cases "est = 0") (simp_all add: end_stint_fuel_def py_div_def Let_def)
  obtain late where late: "end_stint_pit_counts need (cap - al) = Inr late"
    by (cases "cap - al = 0") (simp_all add: end_stint_pit_counts_def py_div_def)
  have p3: "map_sum id (\<lambda>(al, ee, late, early). early)
             (pit_projection cap fuel_now used_now est base delta need)
           = end_lap_pit_counts need
               (end_lap_empty_capacity cap (fuel_now + used_now) (base + delta))
               (cap - al)"
    by (simp add: pit_projection_def al late Let_def split: sum.splits)
  have f: "end_stint_fuel 100 0 200 = Inr 100"
    by (simp add: end_stint_fuel_def py_div_def py_mod1_def Let_def)
  have p4: "pit_projection 100 100 0 200 200 0 need = Inl ZeroDivisionError"
    by (simp add: pit_projection_def f end_stint_pit_counts_def end_lap_pit_counts_def
        py_div_def Let_def)
  from p1 p2 al p3 p4 show ?thesis by blast
qed

end
